theory Spec2Isabelle
  imports Main "HOL-Library.Signed_Division"
begin

section \<open>tcping: a nonblocking connect to test whether a TCP port is reachable\<close>

text \<open>
  The program is the single function \<open>main\<close> of \<open>tcping.c\<close>. It is embedded as a
  function from the command line and the answers of the operating system to the list
  of things the process does (system calls and writes to stdout and stderr, in order)
  and the way it ends. The C library functions it calls are modelled for an LP64
  platform (\<open>long\<close> of 64 bits, \<open>int\<close> of 32 bits) with the GNU C library: \<open>strtol\<close> and
  \<open>htons\<close> as ISO C and POSIX describe them, \<open>getopt\<close> with the permutation of \<open>argv\<close>
  that the GNU library performs. The operating system (resolver, socket, connect,
  select, getsockopt) is a record of answers, one per call the program makes.
\<close>

subsection \<open>C integers\<close>

definition LONG_MAX :: int where
  "LONG_MAX = 9223372036854775807"

definition LONG_MIN :: int where
  "LONG_MIN = - 9223372036854775808"

text \<open>
  Arithmetic on \<open>long\<close>: the result wraps around at 64 bits (two's complement). ISO C
  leaves the overflow of a signed sum undefined; the usual compilers wrap.
\<close>

definition wrap_long :: "int \<Rightarrow> int" where
  "wrap_long x = (x + 2 ^ 63) mod 2 ^ 64 - 2 ^ 63"

text \<open>The assignment \<open>int port = strtol(...)\<close> keeps the low 32 bits of the \<open>long\<close>.\<close>

definition long_to_int :: "int \<Rightarrow> int" where
  "long_to_int x = (x + 2 ^ 31) mod 2 ^ 32 - 2 ^ 31"

text \<open>
  \<open>htons\<close> takes a \<open>uint16_t\<close>: the \<open>int\<close> argument is reduced modulo \<open>2 ^ 16\<close>. The
  result is kept as the port number that the two bytes, in network order, denote.
\<close>

definition htons :: "int \<Rightarrow> nat" where
  "htons x = nat (x mod 65536)"

subsection \<open>strtol, base 10\<close>

definition isspace :: "char \<Rightarrow> bool" where
  "isspace c = (c = CHR '' '' \<or> c = CHR 0x09 \<or> c = CHR 0x0A \<or> c = CHR 0x0B
                \<or> c = CHR 0x0C \<or> c = CHR 0x0D)"

definition isdigit :: "char \<Rightarrow> bool" where
  "isdigit c = (48 \<le> (of_char c :: nat) \<and> (of_char c :: nat) \<le> 57)"

definition digit_value :: "char \<Rightarrow> int" where
  "digit_value c = int (of_char c) - 48"

definition digits_value :: "string \<Rightarrow> int" where
  "digits_value ds = foldl (\<lambda>a c. 10 * a + digit_value c) 0 ds"

text \<open>
  \<open>strtol nptr\<close> is the pair of the value returned and of the number of characters
  consumed (\<open>endptr - nptr\<close>): white space is skipped, one sign is read, then the
  longest run of digits. With no digit nothing is consumed and the value is 0; a value
  out of the range of \<open>long\<close> is replaced by \<open>LONG_MAX\<close> or \<open>LONG_MIN\<close>.
\<close>

definition strtol :: "string \<Rightarrow> int \<times> nat" where
  "strtol nptr =
     (let sp = takeWhile isspace nptr;
          s1 = dropWhile isspace nptr;
          neg = (case s1 of [] \<Rightarrow> False | c # _ \<Rightarrow> c = CHR ''-'');
          sg = (case s1 of [] \<Rightarrow> 0 | c # _ \<Rightarrow> if c = CHR ''-'' \<or> c = CHR ''+'' then 1 else 0);
          ds = takeWhile isdigit (drop sg s1);
          v = digits_value ds
      in if ds = [] then (0, 0)
         else (max LONG_MIN (min LONG_MAX (if neg then - v else v)),
               length sp + sg + length ds))"

subsection \<open>What the process does\<close>

record timeval =
  tv_sec :: int
  tv_usec :: int

record hostent =
  h_addrtype :: int
  h_length :: nat
  h_addr :: "nat list"

record sockaddr_in =
  sin_family :: int
  sin_port :: nat
  sin_addr :: "nat list"

text \<open>
  One event per system call or write, with the arguments that matter: \<open>Select n t\<close> is
  \<open>select(n, &fdrset, &fdwset, NULL, t)\<close>, where \<open>t = None\<close> is the null pointer.
  \<open>Getopt_error c\<close> is the diagnostic that \<open>getopt\<close> itself writes to stderr for the
  option character \<open>c\<close>.
\<close>

datatype event =
    Getopt_error char
  | Gethostbyname string
  | Socket int
  | Fcntl int
  | Connect int sockaddr_in
  | Select int "timeval option"
  | Getsockopt int
  | Close int
  | Stdout string
  | Stderr string

text \<open>
  The process ends with an exit code (\<open>exit\<close>, or \<open>return\<close> from \<open>main\<close>), or its
  behaviour is undefined (\<open>gethostbyname\<close> of a null pointer).
\<close>

datatype outcome = Exit int | Undefined

definition exit_status :: "outcome \<Rightarrow> nat option" where
  "exit_status out = (case out of Exit c \<Rightarrow> Some (nat (c mod 256)) | Undefined \<Rightarrow> None)"

subsection \<open>The operating system\<close>

text \<open>
  The answers of the system to the calls of one run. \<open>resolver\<close> answers
  \<open>gethostbyname\<close> with \<open>h_errno\<close> (the null pointer was returned) or with the host
  entry, whose first address is \<open>h_addr\<close>. \<open>socket_result\<close> is the descriptor returned
  by \<open>socket\<close>, or \<open>-1\<close>. \<open>connect_result\<close> and \<open>getsockopt_result\<close> give the
  returned value and \<open>errno\<close>, the latter also the pending error stored in \<open>error\<close>.
  \<open>select_result\<close> gives the returned value and whether \<open>sockfd\<close> is left in the read
  set and in the write set.
\<close>

record world =
  resolver :: "string \<Rightarrow> int + hostent"
  hstrerror :: "int \<Rightarrow> string"
  strerror :: "int \<Rightarrow> string"
  socket_result :: int
  connect_result :: "sockaddr_in \<Rightarrow> int \<times> int"
  select_result :: "timeval option \<Rightarrow> int \<times> bool \<times> bool"
  getsockopt_result :: "int \<times> int \<times> int"

definition EINPROGRESS :: int where
  "EINPROGRESS = 115"

definition EBADF :: int where
  "EBADF = 9"

text \<open>\<open>connect\<close> on a negative descriptor fails with \<open>EBADF\<close>, whatever the address.\<close>

definition sys_connect :: "world \<Rightarrow> int \<Rightarrow> sockaddr_in \<Rightarrow> int \<times> int" where
  "sys_connect w fd addr = (if fd < 0 then (- 1, EBADF) else connect_result w addr)"

subsection \<open>getopt\<close>

text \<open>
  The state of the scan of \<open>argv\<close>: \<open>unscanned\<close> holds the words after the one being
  read (\<open>argv\<close> from \<open>optind\<close> on), \<open>nextchar\<close> the rest of the option word being read,
  and \<open>nonopts\<close> the words that are not options and were passed over, which \<open>getopt\<close>
  moves behind the options (they lie between \<open>first_nonopt\<close> and \<open>last_nonopt\<close>).
\<close>

record getopt_state =
  unscanned :: "string list"
  nextchar :: string
  nonopts :: "string list"

text \<open>Before the first call \<open>optind\<close> is 1: the scan starts after \<open>argv[0]\<close>.\<close>

definition getopt_start :: "string list \<Rightarrow> getopt_state" where
  "getopt_start argv = \<lparr>unscanned = drop 1 argv, nextchar = [], nonopts = []\<rparr>"

text \<open>
  A word that is not an option (\<open>NONOPTION_P\<close>): it does not start with \<open>-\<close>, or it is
  \<open>-\<close> alone.
\<close>

definition nonoption :: "string \<Rightarrow> bool" where
  "nonoption a = (case a of [] \<Rightarrow> True | c # cs \<Rightarrow> cs = [] \<or> c \<noteq> CHR ''-'')"

text \<open>
  \<open>optlookup optstring c\<close>: \<open>None\<close> when \<open>c\<close> is not an option character, else whether
  the option takes an argument (a colon follows it in \<open>optstring\<close>).
\<close>

fun optlookup :: "string \<Rightarrow> char \<Rightarrow> bool option" where
  "optlookup [] c = None"
| "optlookup (x # xs) c =
     (if x = c \<and> c \<noteq> CHR '':''
      then Some (case xs of [] \<Rightarrow> False | y # _ \<Rightarrow> y = CHR '':'')
      else optlookup xs c)"

text \<open>
  One call of \<open>getopt\<close>, as the GNU C library runs it for an option string that starts
  with neither \<open>+\<close> nor \<open>-\<close> (and without \<open>POSIXLY_CORRECT\<close>): words that are not options
  are passed over, so that options are read wherever they stand; the word \<open>--\<close> ends the
  options, and the words after it are not options. The result is the returned character
  (\<open>None\<close> for \<open>-1\<close>), \<open>optarg\<close>, what \<open>getopt\<close> wrote to stderr, and the new state. When
  \<open>-1\<close> is returned, \<open>getopt\<close> has moved the words that are not options to the end of
  \<open>argv\<close>, in their order, and \<open>optind\<close> is the index of the first of them: \<open>nonopts\<close> is
  then \<open>argv\<close> from \<open>optind\<close> on. \<open>next_option\<close> handles the option character \<open>c\<close>, with
  \<open>cs\<close> the rest of the word it stands in, \<open>rest\<close> the words after that word and \<open>passed\<close>
  the words passed over; an option that takes an argument takes the rest of its word
  or, when there is none, the next word, whatever it is.
\<close>

definition next_option ::
  "string \<Rightarrow> char \<Rightarrow> string \<Rightarrow> string list \<Rightarrow> string list
   \<Rightarrow> (char option \<times> string \<times> event list) \<times> getopt_state" where
  "next_option optstring c cs rest passed =
     (case optlookup optstring c of
        None \<Rightarrow>
          ((Some (CHR ''?''), [], [Getopt_error c]),
           \<lparr>unscanned = rest, nextchar = cs, nonopts = passed\<rparr>)
      | Some False \<Rightarrow>
          ((Some c, [], []), \<lparr>unscanned = rest, nextchar = cs, nonopts = passed\<rparr>)
      | Some True \<Rightarrow>
          (if cs \<noteq> [] then
             ((Some c, cs, []), \<lparr>unscanned = rest, nextchar = [], nonopts = passed\<rparr>)
           else
             (case rest of
                [] \<Rightarrow>
                  ((Some (CHR ''?''), [], [Getopt_error c]),
                   \<lparr>unscanned = [], nextchar = [], nonopts = passed\<rparr>)
              | optarg # rest' \<Rightarrow>
                  ((Some c, optarg, []),
                   \<lparr>unscanned = rest', nextchar = [], nonopts = passed\<rparr>))))"

definition getopt ::
  "string \<Rightarrow> getopt_state \<Rightarrow> (char option \<times> string \<times> event list) \<times> getopt_state" where
  "getopt optstring st =
     (case nextchar st of
        c # cs \<Rightarrow> next_option optstring c cs (unscanned st) (nonopts st)
      | [] \<Rightarrow>
          (let passed = nonopts st @ takeWhile nonoption (unscanned st)
           in case dropWhile nonoption (unscanned st) of
                [] \<Rightarrow> ((None, [], []), \<lparr>unscanned = [], nextchar = [], nonopts = passed\<rparr>)
              | a # rest \<Rightarrow>
                  (if a = ''--'' then
                     ((None, [], []),
                      \<lparr>unscanned = [], nextchar = [], nonopts = passed @ rest\<rparr>)
                   else
                     (case a of
                        c0 # c # cs \<Rightarrow> next_option optstring c cs rest passed
                      | _ \<Rightarrow>
                          ((None, [], []),
                           \<lparr>unscanned = [], nextchar = [], nonopts = passed @ a # rest\<rparr>)))))"

text \<open>What is left for \<open>getopt\<close> to read: it decreases with every option returned.\<close>

definition unread :: "getopt_state \<Rightarrow> nat" where
  "unread st = length (nextchar st) + sum_list (map (\<lambda>a. Suc (length a)) (unscanned st))"

subsection \<open>main\<close>

definition newline :: string where
  "newline = [CHR 0x0A]"

text \<open>The macro \<open>log\<close>: the write happens when \<open>verbosity\<close> is not 0.\<close>

definition log :: "int \<Rightarrow> event \<Rightarrow> event list" where
  "log verbosity ev = (if verbosity \<noteq> 0 then [ev] else [])"

text \<open>\<open>usage\<close> writes to stderr whatever the verbosity; the caller then exits with -1.\<close>

definition usage :: "string \<Rightarrow> event list" where
  "usage prog =
     [Stderr (''error: Usage: '' @ prog
              @ '' [-q] [-t timeout_sec] [-u timeout_usec] <host> <port>'' @ newline)]"

text \<open>
  \<open>argv[0]\<close>, as \<open>usage\<close> prints it with \<open>%s\<close>; for an empty \<open>argv\<close> it is the null
  pointer, which the GNU library prints as \<open>(null)\<close>.
\<close>

definition argv0 :: "string list \<Rightarrow> string" where
  "argv0 argv = (case argv of [] \<Rightarrow> ''(null)'' | prog # _ \<Rightarrow> prog)"

text \<open>
  The loop \<open>while ((c = getopt(argc, argv, "qt:u:")) != -1) switch (c) ...\<close>. The
  variables are \<open>verbosity\<close>, \<open>timeout_sec\<close> and \<open>timeout_usec\<close>. \<open>Inl\<close> is the call of
  \<open>usage\<close>, with what \<open>getopt\<close> wrote before it; \<open>Inr\<close> is the end of the loop, with the
  variables and \<open>argv\<close> from \<open>optind\<close> on.
\<close>

function getopt_loop ::
  "getopt_state \<Rightarrow> int \<times> int \<times> int \<Rightarrow> event list + (int \<times> int \<times> int \<times> string list)" where
  "getopt_loop st (verbosity, timeout_sec, timeout_usec) =
     (case getopt ''qt:u:'' st of
        ((None, optarg, msgs), st') \<Rightarrow>
          Inr (verbosity, timeout_sec, timeout_usec, nonopts st')
      | ((Some c, optarg, msgs), st') \<Rightarrow>
          (if c = CHR ''q'' then getopt_loop st' (0, timeout_sec, timeout_usec)
           else if c = CHR ''t'' then
             (if snd (strtol optarg) = 0 then Inl msgs
              else getopt_loop st' (verbosity, fst (strtol optarg), timeout_usec))
           else if c = CHR ''u'' then
             (if snd (strtol optarg) = 0 then Inl msgs
              else getopt_loop st' (verbosity, timeout_sec, fst (strtol optarg)))
           else Inl msgs))"
  by pat_completeness auto
termination
proof (relation "measure (\<lambda>(st, vars). unread st)", goal_cases)
  have weight: "sum_list (map (\<lambda>a. Suc (length a)) (dropWhile P ws))
                  \<le> sum_list (map (\<lambda>a. Suc (length a)) ws)" for P and ws :: "string list"
    by (induction ws) auto
  have opt: "unread st' \<le> length cs + sum_list (map (\<lambda>a. Suc (length a)) rest)"
    if "next_option os c cs rest passed = (r, st')" for os c cs rest passed r st'
    using that
    by (auto simp: next_option_def unread_def split: option.splits bool.splits if_splits list.splits)
  have step: "unread st' < unread st"
    if run: "getopt os st = ((Some c, optarg, msgs), st')" for os st c optarg msgs st'
  proof (cases "nextchar st")
    case (Cons d ds)
    with run have "next_option os d ds (unscanned st) (nonopts st) = ((Some c, optarg, msgs), st')"
      by (simp add: getopt_def)
    from opt [OF this] Cons show ?thesis
      by (simp add: unread_def)
  next
    case Nil
    from run Nil obtain c0 d ds rest where
      a: "dropWhile nonoption (unscanned st) = (c0 # d # ds) # rest" and
      n: "next_option os d ds rest (nonopts st @ takeWhile nonoption (unscanned st))
            = ((Some c, optarg, msgs), st')"
      by (auto simp: getopt_def Let_def split: list.splits if_splits)
    from weight [of nonoption "unscanned st"] a opt [OF n] Nil show ?thesis
      by (simp add: unread_def)
  qed
  {
    case 1
    show ?case by simp
  next
    case 2
    then show ?case by (auto dest: step [OF sym])
  next
    case 3
    then show ?case by (auto dest: step [OF sym])
  next
    case 4
    then show ?case by (auto dest: step [OF sym])
  }
qed

declare getopt_loop.simps [simp del]

text \<open>
  Lines 146 to 150: the connection is established. The port in every message is the
  argument as it was typed, \<open>argv[optind + 1]\<close>.
\<close>

definition established :: "int \<Rightarrow> string \<Rightarrow> string \<Rightarrow> int \<Rightarrow> event list \<times> outcome" where
  "established verbosity host port sockfd =
     (Close sockfd # log verbosity (Stdout (host @ '' port '' @ port @ '' open.'' @ newline)),
      Exit 0)"

definition prefixed :: "event list \<Rightarrow> event list \<times> outcome \<Rightarrow> event list \<times> outcome" where
  "prefixed evs run = (evs @ fst run, snd run)"

text \<open>
  Lines 113 to 118: the timeout handed to \<open>select\<close>, or the null pointer. The division
  of \<open>timeout_usec\<close> truncates and the remainder has the sign of \<open>timeout_usec\<close>, as in C
  (\<open>sdiv\<close>, \<open>smod\<close>); the sums are sums of \<open>long\<close>.
\<close>

definition select_timeout :: "int \<Rightarrow> int \<Rightarrow> timeval option" where
  "select_timeout timeout_sec timeout_usec =
     (let timeout = \<lparr>tv_sec = wrap_long (timeout_sec + timeout_usec sdiv 1000000),
                      tv_usec = timeout_usec smod 1000000\<rparr>
      in if 0 < wrap_long (tv_sec timeout + tv_usec timeout) then Some timeout else None)"

text \<open>Lines 109 to 145: the connect is pending.\<close>

definition await ::
  "world \<Rightarrow> int \<Rightarrow> string \<Rightarrow> string \<Rightarrow> int \<Rightarrow> int \<Rightarrow> int \<Rightarrow> event list \<times> outcome" where
  "await w verbosity host port sockfd timeout_sec timeout_usec =
     (let deadline = select_timeout timeout_sec timeout_usec
      in case select_result w deadline of
           (ret, in_fdrset, in_fdwset) \<Rightarrow>
             if ret = 0 then
               (Select (sockfd + 1) deadline # Close sockfd
                  # log verbosity
                      (Stdout (host @ '' port '' @ port @ '' user timeout.'' @ newline)),
                Exit 2)
             else if in_fdrset \<or> in_fdwset then
               (case getsockopt_result w of
                  (ret', error, errno) \<Rightarrow>
                    if ret' \<noteq> 0 then
                      (Select (sockfd + 1) deadline # Getsockopt sockfd
                         # log verbosity
                             (Stderr (''error: '' @ host @ '' port '' @ port
                                      @ '': getsockopt: '' @ strerror w errno @ newline))
                         @ [Close sockfd],
                       Exit (- 1))
                    else if error \<noteq> 0 then
                      (Select (sockfd + 1) deadline # Getsockopt sockfd
                         # log verbosity
                             (Stdout (host @ '' port '' @ port @ '' closed.'' @ newline))
                         @ [Close sockfd],
                       Exit 1)
                    else prefixed [Select (sockfd + 1) deadline, Getsockopt sockfd]
                           (established verbosity host port sockfd))
             else
               (Select (sockfd + 1) deadline
                  # log verbosity (Stderr (''error: select: sockfd not set'' @ newline)),
                Exit (- 1)))"

text \<open>Lines 100 to 107, then the wait or the established connection.\<close>

definition probe ::
  "world \<Rightarrow> int \<Rightarrow> string \<Rightarrow> string \<Rightarrow> sockaddr_in \<Rightarrow> int \<Rightarrow> int \<Rightarrow> event list \<times> outcome" where
  "probe w verbosity host port addr timeout_sec timeout_usec =
     (let sockfd = socket_result w
      in case sys_connect w sockfd addr of
           (ret, errno) \<Rightarrow>
             if ret \<noteq> 0 then
               (if errno \<noteq> EINPROGRESS then
                  (Socket sockfd # Fcntl sockfd # Connect sockfd addr
                     # log verbosity
                         (Stderr (''error: '' @ host @ '' port '' @ port @ '': ''
                                  @ strerror w errno @ newline)),
                   Exit (- 1))
                else prefixed [Socket sockfd, Fcntl sockfd, Connect sockfd addr]
                       (await w verbosity host port sockfd timeout_sec timeout_usec))
             else prefixed [Socket sockfd, Fcntl sockfd, Connect sockfd addr]
                    (established verbosity host port sockfd))"

text \<open>
  Lines 81 to 98: the address of the connect, from the host entry and the port
  argument (which \<open>main\<close> has checked to start with a number).
\<close>

definition address :: "hostent \<Rightarrow> string \<Rightarrow> sockaddr_in" where
  "address he port =
     \<lparr>sin_family = h_addrtype he,
      sin_port = htons (long_to_int (fst (strtol port))),
      sin_addr = take (h_length he) (h_addr he)\<rparr>"

text \<open>
  \<open>main\<close>, lines 54 to 98, then \<open>probe\<close>. \<open>argc\<close> is the length of \<open>argv\<close>, and
  \<open>argv[argc]\<close> is the null pointer: with \<open>operands\<close> the words of \<open>argv\<close> from \<open>optind\<close>
  on after the loop, \<open>argv[optind]\<close> is null when there is none, and \<open>argv[optind + 1]\<close>
  is null when there is one.
\<close>

definition main :: "world \<Rightarrow> string list \<Rightarrow> event list \<times> outcome" where
  "main w argv =
     (if length argv < 3 then (usage (argv0 argv), Exit (- 1))
      else
        (case getopt_loop (getopt_start argv) (1, 0, 0) of
           Inl msgs \<Rightarrow> (msgs @ usage (argv0 argv), Exit (- 1))
         | Inr (verbosity, timeout_sec, timeout_usec, operands) \<Rightarrow>
             (case operands of
                [] \<Rightarrow> ([], Undefined)
              | host # rest \<Rightarrow>
                  (case resolver w host of
                     Inl h_errno \<Rightarrow>
                       (Gethostbyname host
                          # log verbosity (Stderr (''error: '' @ hstrerror w h_errno @ newline)),
                        Exit (- 1))
                   | Inr he \<Rightarrow>
                       (case rest of
                          [] \<Rightarrow> (Gethostbyname host # usage (argv0 argv), Exit (- 1))
                        | port # _ \<Rightarrow>
                            (if snd (strtol port) = 0
                             then (Gethostbyname host # usage (argv0 argv), Exit (- 1))
                             else prefixed [Gethostbyname host]
                                    (probe w verbosity host port (address he port)
                                       timeout_sec timeout_usec)))))))"

text \<open>
  The system calls of a run: the run without what is written to stdout and stderr.
\<close>

fun is_write :: "event \<Rightarrow> bool" where
  "is_write (Stdout s) = True"
| "is_write (Stderr s) = True"
| "is_write (Getopt_error c) = True"
| "is_write (Gethostbyname h) = False"
| "is_write (Socket fd) = False"
| "is_write (Fcntl fd) = False"
| "is_write (Connect fd a) = False"
| "is_write (Select n t) = False"
| "is_write (Getsockopt fd) = False"
| "is_write (Close fd) = False"

definition calls :: "event list \<Rightarrow> event list" where
  "calls evs = filter (\<lambda>e. \<not> is_write e) evs"

subsection \<open>Decimal numerals\<close>

text \<open>The decimal numeral of an integer, as one types it on the command line.\<close>

fun dec_nat :: "nat \<Rightarrow> string" where
  "dec_nat n =
     (if n < 10 then [char_of (48 + n)] else dec_nat (n div 10) @ [char_of (48 + n mod 10)])"

declare dec_nat.simps [simp del]

definition dec :: "int \<Rightarrow> string" where
  "dec i = (if i < 0 then CHR ''-'' # dec_nat (nat (- i)) else dec_nat (nat i))"

subsection \<open>Example systems\<close>

definition localhost :: hostent where
  "localhost = \<lparr>h_addrtype = 2, h_length = 4, h_addr = [127, 0, 0, 1]\<rparr>"

definition messages :: "int \<Rightarrow> string" where
  "messages e =
     (if e = 9 then ''Bad file descriptor''
      else if e = 101 then ''Network is unreachable''
      else if e = 111 then ''Connection refused''
      else ''Unknown error'')"

text \<open>
  A system that knows the host \<open>localhost\<close> only, and answers \<open>socket\<close>, \<open>connect\<close>,
  \<open>select\<close> and \<open>getsockopt\<close> as given.
\<close>

definition system ::
  "int \<Rightarrow> int \<times> int \<Rightarrow> int \<times> bool \<times> bool \<Rightarrow> int \<times> int \<times> int \<Rightarrow> world" where
  "system fd c s g =
     \<lparr>resolver = (\<lambda>h. if h = ''localhost'' then Inr localhost else Inl 1),
      hstrerror = (\<lambda>e. ''Unknown host''),
      strerror = messages,
      socket_result = fd,
      connect_result = (\<lambda>a. c),
      select_result = (\<lambda>t. s),
      getsockopt_result = g\<rparr>"

section \<open>Properties\<close>

text \<open>The definitions that a run on a given command line and system unfolds.\<close>

lemmas parse_defs =
  getopt_loop.simps getopt_def getopt_start_def nonoption_def next_option_def Let_def

lemmas run_defs =
  main_def parse_defs argv0_def usage_def log_def
  probe_def await_def established_def prefixed_def sys_connect_def select_timeout_def
  wrap_long_def address_def htons_def long_to_int_def strtol_def isspace_def isdigit_def
  digits_value_def digit_value_def LONG_MAX_def LONG_MIN_def EINPROGRESS_def EBADF_def
  system_def localhost_def messages_def

subsection \<open>The branches of the run\<close>

lemma main_probe:
  assumes "3 \<le> length argv"
    and "getopt_loop (getopt_start argv) (1, 0, 0)
           = Inr (verbosity, timeout_sec, timeout_usec, host # port # rest)"
    and "resolver w host = Inr he"
    and "snd (strtol port) \<noteq> 0"
  shows "main w argv
           = prefixed [Gethostbyname host]
               (probe w verbosity host port (address he port) timeout_sec timeout_usec)"
  using assms by (simp add: main_def)

lemma probe_connect_error:
  assumes "sys_connect w (socket_result w) addr = (ret, errno)"
    and "ret \<noteq> 0" and "errno \<noteq> EINPROGRESS"
  shows "probe w verbosity host port addr timeout_sec timeout_usec
           = (Socket (socket_result w) # Fcntl (socket_result w) # Connect (socket_result w) addr
                # log verbosity
                    (Stderr (''error: '' @ host @ '' port '' @ port @ '': ''
                             @ strerror w errno @ newline)),
              Exit (- 1))"
  using assms by (simp add: probe_def Let_def)

lemma probe_pending:
  assumes "sys_connect w (socket_result w) addr = (ret, EINPROGRESS)" and "ret \<noteq> 0"
  shows "probe w verbosity host port addr timeout_sec timeout_usec
           = prefixed [Socket (socket_result w), Fcntl (socket_result w),
                       Connect (socket_result w) addr]
               (await w verbosity host port (socket_result w) timeout_sec timeout_usec)"
  using assms by (simp add: probe_def Let_def)

lemma probe_connected:
  assumes "sys_connect w (socket_result w) addr = (0, errno)"
  shows "probe w verbosity host port addr timeout_sec timeout_usec
           = prefixed [Socket (socket_result w), Fcntl (socket_result w),
                       Connect (socket_result w) addr]
               (established verbosity host port (socket_result w))"
  using assms by (simp add: probe_def Let_def)

text \<open>
  Claim C5. Whenever \<open>connect\<close> returns a value other than 0 with \<open>errno\<close> other than
  \<open>EINPROGRESS\<close>, the run is: the three calls up to \<open>connect\<close>, the error message on
  stderr unless the options made the run quiet (\<open>verbosity\<close> is 0), and the exit code -1
  (status 255). There is no \<open>select\<close> in it and \<open>connect\<close> is called once.
\<close>

theorem connect_error_is_fatal:
  assumes "3 \<le> length argv"
    and "getopt_loop (getopt_start argv) (1, 0, 0)
           = Inr (verbosity, timeout_sec, timeout_usec, host # port # rest)"
    and "resolver w host = Inr he"
    and "snd (strtol port) \<noteq> 0"
    and "sys_connect w (socket_result w) (address he port) = (ret, errno)"
    and "ret \<noteq> 0"
    and "errno \<noteq> EINPROGRESS"
  shows "main w argv
           = ([Gethostbyname host, Socket (socket_result w), Fcntl (socket_result w),
               Connect (socket_result w) (address he port)]
              @ (if verbosity = 0 then []
                 else [Stderr (''error: '' @ host @ '' port '' @ port @ '': ''
                               @ strerror w errno @ newline)]),
              Exit (- 1))
         \<and> exit_status (snd (main w argv)) = Some 255
         \<and> (\<forall>n t. Select n t \<notin> set (fst (main w argv)))
         \<and> length (filter (\<lambda>e. \<exists>fd a. e = Connect fd a) (fst (main w argv))) = 1"
proof -
  have run: "main w argv
           = ([Gethostbyname host, Socket (socket_result w), Fcntl (socket_result w),
               Connect (socket_result w) (address he port)]
              @ (if verbosity = 0 then []
                 else [Stderr (''error: '' @ host @ '' port '' @ port @ '': ''
                               @ strerror w errno @ newline)]),
              Exit (- 1))"
    using main_probe [OF assms(1-4)] probe_connect_error [OF assms(5-7)]
    by (simp add: prefixed_def log_def)
  show ?thesis
    unfolding run by (simp add: exit_status_def)
qed

text \<open>
  The runs of \<open>tcping localhost 80\<close> and of \<open>tcping localhost 80 -q\<close> on a system whose
  \<open>connect\<close> fails with \<open>ENETUNREACH\<close> (101): the second writes nothing.
\<close>

theorem connect_error_is_fatal_witness:
  "getopt_loop (getopt_start [''tcping'', ''localhost'', ''80'']) (1, 0, 0)
     = Inr (1, 0, 0, [''localhost'', ''80''])
   \<and> getopt_loop (getopt_start [''tcping'', ''localhost'', ''80'', ''-q'']) (1, 0, 0)
       = Inr (0, 0, 0, [''localhost'', ''80''])
   \<and> resolver (system 3 (- 1, 101) (0, False, False) (0, 0, 0)) ''localhost'' = Inr localhost
   \<and> snd (strtol ''80'') \<noteq> 0
   \<and> sys_connect (system 3 (- 1, 101) (0, False, False) (0, 0, 0)) 3 (address localhost ''80'')
       = (- 1, 101)
   \<and> 101 \<noteq> EINPROGRESS
   \<and> main (system 3 (- 1, 101) (0, False, False) (0, 0, 0)) [''tcping'', ''localhost'', ''80'']
       = ([Gethostbyname ''localhost'', Socket 3, Fcntl 3,
           Connect 3 \<lparr>sin_family = 2, sin_port = 80, sin_addr = [127, 0, 0, 1]\<rparr>,
           Stderr (''error: localhost port 80: Network is unreachable'' @ newline)],
          Exit (- 1))
   \<and> main (system 3 (- 1, 101) (0, False, False) (0, 0, 0))
         [''tcping'', ''localhost'', ''80'', ''-q'']
       = ([Gethostbyname ''localhost'', Socket 3, Fcntl 3,
           Connect 3 \<lparr>sin_family = 2, sin_port = 80, sin_addr = [127, 0, 0, 1]\<rparr>],
          Exit (- 1))"
proof -
  let ?w = "system 3 (- 1, 101) (0, False, False) (0, 0, 0)"
  let ?argv = "[''tcping'', ''localhost'', ''80'']"
  let ?quiet = "[''tcping'', ''localhost'', ''80'', ''-q'']"
  have 1: "3 \<le> length ?argv" "3 \<le> length ?quiet"
    by simp_all
  have 2: "getopt_loop (getopt_start ?argv) (1, 0, 0) = Inr (1, 0, 0, [''localhost'', ''80''])"
    and q: "getopt_loop (getopt_start ?quiet) (1, 0, 0) = Inr (0, 0, 0, [''localhost'', ''80''])"
    by (simp_all add: parse_defs)
  have 4: "resolver ?w ''localhost'' = Inr localhost"
    by (simp add: system_def)
  have 5: "snd (strtol ''80'') \<noteq> 0"
    by code_simp
  have 6: "sys_connect ?w (socket_result ?w) (address localhost ''80'') = (- 1, 101)"
    by (simp add: system_def sys_connect_def)
  have 7: "(- 1 :: int) \<noteq> 0"
    by simp
  have 8: "101 \<noteq> EINPROGRESS"
    by (simp add: EINPROGRESS_def)
  have 9: "address localhost ''80'' = \<lparr>sin_family = 2, sin_port = 80, sin_addr = [127, 0, 0, 1]\<rparr>"
    by code_simp
  have 10: "socket_result ?w = 3" "strerror ?w 101 = ''Network is unreachable''"
    by (simp_all add: system_def messages_def)
  have plain: "main ?w ?argv
       = ([Gethostbyname ''localhost'', Socket 3, Fcntl 3,
           Connect 3 \<lparr>sin_family = 2, sin_port = 80, sin_addr = [127, 0, 0, 1]\<rparr>,
           Stderr (''error: localhost port 80: Network is unreachable'' @ newline)],
          Exit (- 1))"
    using connect_error_is_fatal [OF 1(1) 2 4 5 6 7 8] by (simp add: 9 10)
  have quiet: "main ?w ?quiet
       = ([Gethostbyname ''localhost'', Socket 3, Fcntl 3,
           Connect 3 \<lparr>sin_family = 2, sin_port = 80, sin_addr = [127, 0, 0, 1]\<rparr>],
          Exit (- 1))"
    using connect_error_is_fatal [OF 1(2) q 4 5 6 7 8] by (simp add: 9 10)
  from 2 q 4 5 6 8 plain quiet show ?thesis
    by (simp add: 10)
qed

lemma await_timeout:
  assumes "select_result w (select_timeout timeout_sec timeout_usec) = (0, in_fdrset, in_fdwset)"
  shows "await w verbosity host port sockfd timeout_sec timeout_usec
           = (Select (sockfd + 1) (select_timeout timeout_sec timeout_usec) # Close sockfd
                # log verbosity
                    (Stdout (host @ '' port '' @ port @ '' user timeout.'' @ newline)),
              Exit 2)"
  using assms by (simp add: await_def Let_def)

lemma await_getsockopt_error:
  assumes "select_result w (select_timeout timeout_sec timeout_usec) = (n, in_fdrset, in_fdwset)"
    and "n \<noteq> 0" and "in_fdrset \<or> in_fdwset"
    and "getsockopt_result w = (g, error, errno)" and "g \<noteq> 0"
  shows "await w verbosity host port sockfd timeout_sec timeout_usec
           = (Select (sockfd + 1) (select_timeout timeout_sec timeout_usec) # Getsockopt sockfd
                # log verbosity
                    (Stderr (''error: '' @ host @ '' port '' @ port
                             @ '': getsockopt: '' @ strerror w errno @ newline))
                @ [Close sockfd],
              Exit (- 1))"
  using assms by (simp add: await_def Let_def)

lemma await_closed:
  assumes "select_result w (select_timeout timeout_sec timeout_usec) = (n, in_fdrset, in_fdwset)"
    and "n \<noteq> 0" and "in_fdrset \<or> in_fdwset"
    and "getsockopt_result w = (0, error, errno)" and "error \<noteq> 0"
  shows "await w verbosity host port sockfd timeout_sec timeout_usec
           = (Select (sockfd + 1) (select_timeout timeout_sec timeout_usec) # Getsockopt sockfd
                # log verbosity (Stdout (host @ '' port '' @ port @ '' closed.'' @ newline))
                @ [Close sockfd],
              Exit 1)"
  using assms by (simp add: await_def Let_def)

lemma await_open:
  assumes "select_result w (select_timeout timeout_sec timeout_usec) = (n, in_fdrset, in_fdwset)"
    and "n \<noteq> 0" and "in_fdrset \<or> in_fdwset"
    and "getsockopt_result w = (0, 0, errno)"
  shows "await w verbosity host port sockfd timeout_sec timeout_usec
           = prefixed [Select (sockfd + 1) (select_timeout timeout_sec timeout_usec),
                       Getsockopt sockfd]
               (established verbosity host port sockfd)"
  using assms by (simp add: await_def Let_def)

lemma await_not_set:
  assumes "select_result w (select_timeout timeout_sec timeout_usec) = (n, False, False)"
    and "n \<noteq> 0"
  shows "await w verbosity host port sockfd timeout_sec timeout_usec
           = (Select (sockfd + 1) (select_timeout timeout_sec timeout_usec)
                # log verbosity (Stderr (''error: select: sockfd not set'' @ newline)),
              Exit (- 1))"
  using assms by (simp add: await_def Let_def)

text \<open>The wait calls \<open>select\<close> once, first, with the timeout of \<open>select_timeout\<close>.\<close>

lemma await_select:
  "\<exists>evs. fst (await w verbosity host port sockfd timeout_sec timeout_usec)
           = Select (sockfd + 1) (select_timeout timeout_sec timeout_usec) # evs
         \<and> (\<forall>n t. Select n t \<notin> set evs)"
  by (cases "select_result w (select_timeout timeout_sec timeout_usec)";
      cases "getsockopt_result w")
     (simp add: await_def Let_def log_def prefixed_def established_def)

lemma await_exit_2:
  assumes "snd (await w verbosity host port sockfd timeout_sec timeout_usec) = Exit 2
           \<or> Stdout (host @ '' port '' @ port @ '' user timeout.'' @ newline)
               \<in> set (fst (await w verbosity host port sockfd timeout_sec timeout_usec))"
  shows "fst (select_result w (select_timeout timeout_sec timeout_usec)) = 0"
  using assms
  by (cases "select_result w (select_timeout timeout_sec timeout_usec)";
      cases "getsockopt_result w")
     (auto simp add: await_def Let_def log_def prefixed_def established_def newline_def
           split: if_splits)

text \<open>
  Claim C3. After a pending connect (\<open>connect\<close> returned a value other than 0 with
  \<open>EINPROGRESS\<close>), when \<open>select\<close> returns a value other than 0 with the socket in one of
  the sets and \<open>getsockopt\<close> succeeds: a pending error other than 0 gives the line
  \<open><host> port <port> closed.\<close> on stdout (unless quiet) and the exit code 1, a pending
  error 0 gives \<open><host> port <port> open.\<close> and the exit code 0. A connect that returns 0
  gives the open line and the exit code 0 at once.
\<close>

theorem ready_socket_closed_or_open:
  assumes "3 \<le> length argv"
    and "getopt_loop (getopt_start argv) (1, 0, 0)
           = Inr (verbosity, timeout_sec, timeout_usec, host # port # rest)"
    and "resolver w host = Inr he"
    and "snd (strtol port) \<noteq> 0"
    and "sys_connect w (socket_result w) (address he port) = (ret, errno)"
    and "select_result w (select_timeout timeout_sec timeout_usec) = (n, in_fdrset, in_fdwset)"
    and "getsockopt_result w = (g, error, e)"
  shows "(ret \<noteq> 0 \<and> errno = EINPROGRESS \<and> n \<noteq> 0 \<and> (in_fdrset \<or> in_fdwset) \<and> g = 0
            \<and> error \<noteq> 0 \<longrightarrow>
          main w argv
            = ([Gethostbyname host, Socket (socket_result w), Fcntl (socket_result w),
                Connect (socket_result w) (address he port),
                Select (socket_result w + 1) (select_timeout timeout_sec timeout_usec),
                Getsockopt (socket_result w)]
               @ (if verbosity = 0 then []
                  else [Stdout (host @ '' port '' @ port @ '' closed.'' @ newline)])
               @ [Close (socket_result w)],
               Exit 1))
       \<and> (ret \<noteq> 0 \<and> errno = EINPROGRESS \<and> n \<noteq> 0 \<and> (in_fdrset \<or> in_fdwset) \<and> g = 0
            \<and> error = 0 \<longrightarrow>
          main w argv
            = ([Gethostbyname host, Socket (socket_result w), Fcntl (socket_result w),
                Connect (socket_result w) (address he port),
                Select (socket_result w + 1) (select_timeout timeout_sec timeout_usec),
                Getsockopt (socket_result w), Close (socket_result w)]
               @ (if verbosity = 0 then []
                  else [Stdout (host @ '' port '' @ port @ '' open.'' @ newline)]),
               Exit 0))
       \<and> (ret = 0 \<longrightarrow>
          main w argv
            = ([Gethostbyname host, Socket (socket_result w), Fcntl (socket_result w),
                Connect (socket_result w) (address he port), Close (socket_result w)]
               @ (if verbosity = 0 then []
                  else [Stdout (host @ '' port '' @ port @ '' open.'' @ newline)]),
               Exit 0))"
proof (intro conjI impI)
  assume a: "ret \<noteq> 0 \<and> errno = EINPROGRESS \<and> n \<noteq> 0 \<and> (in_fdrset \<or> in_fdwset) \<and> g = 0
             \<and> error \<noteq> 0"
  with assms(5) have p: "sys_connect w (socket_result w) (address he port) = (ret, EINPROGRESS)"
    by simp
  from a assms(7) have g: "getsockopt_result w = (0, error, e)"
    by simp
  from a show "main w argv
            = ([Gethostbyname host, Socket (socket_result w), Fcntl (socket_result w),
                Connect (socket_result w) (address he port),
                Select (socket_result w + 1) (select_timeout timeout_sec timeout_usec),
                Getsockopt (socket_result w)]
               @ (if verbosity = 0 then []
                  else [Stdout (host @ '' port '' @ port @ '' closed.'' @ newline)])
               @ [Close (socket_result w)],
               Exit 1)"
    by (simp add: main_probe [OF assms(1-4)] probe_pending [OF p]
                  await_closed [OF assms(6) _ _ g] prefixed_def log_def)
next
  assume a: "ret \<noteq> 0 \<and> errno = EINPROGRESS \<and> n \<noteq> 0 \<and> (in_fdrset \<or> in_fdwset) \<and> g = 0
             \<and> error = 0"
  with assms(5) have p: "sys_connect w (socket_result w) (address he port) = (ret, EINPROGRESS)"
    by simp
  from a assms(7) have g: "getsockopt_result w = (0, 0, e)"
    by simp
  from a show "main w argv
            = ([Gethostbyname host, Socket (socket_result w), Fcntl (socket_result w),
                Connect (socket_result w) (address he port),
                Select (socket_result w + 1) (select_timeout timeout_sec timeout_usec),
                Getsockopt (socket_result w), Close (socket_result w)]
               @ (if verbosity = 0 then []
                  else [Stdout (host @ '' port '' @ port @ '' open.'' @ newline)]),
               Exit 0)"
    by (simp add: main_probe [OF assms(1-4)] probe_pending [OF p]
                  await_open [OF assms(6) _ _ g] prefixed_def established_def log_def)
next
  assume "ret = 0"
  with assms(5) have p: "sys_connect w (socket_result w) (address he port) = (0, errno)"
    by simp
  show "main w argv
            = ([Gethostbyname host, Socket (socket_result w), Fcntl (socket_result w),
                Connect (socket_result w) (address he port), Close (socket_result w)]
               @ (if verbosity = 0 then []
                  else [Stdout (host @ '' port '' @ port @ '' open.'' @ newline)]),
               Exit 0)"
    by (simp add: main_probe [OF assms(1-4)] probe_connected [OF p] prefixed_def
                  established_def log_def)
qed

text \<open>
  Three runs on \<open>localhost\<close> and port 80: a pending connect whose pending error is
  \<open>ECONNREFUSED\<close> (111); with \<open>-q\<close> after the port, a pending connect with no pending
  error; a connect that succeeds at once.
\<close>

theorem ready_socket_closed_or_open_witness:
  "sys_connect (system 3 (- 1, 115) (1, False, True) (0, 111, 0)) 3 (address localhost ''80'')
     = (- 1, EINPROGRESS)
   \<and> main (system 3 (- 1, 115) (1, False, True) (0, 111, 0)) [''tcping'', ''localhost'', ''80'']
       = ([Gethostbyname ''localhost'', Socket 3, Fcntl 3,
           Connect 3 \<lparr>sin_family = 2, sin_port = 80, sin_addr = [127, 0, 0, 1]\<rparr>,
           Select 4 None, Getsockopt 3,
           Stdout (''localhost port 80 closed.'' @ newline), Close 3],
          Exit 1)
   \<and> main (system 3 (- 1, 115) (1, False, True) (0, 0, 0))
         [''tcping'', ''localhost'', ''80'', ''-q'']
       = ([Gethostbyname ''localhost'', Socket 3, Fcntl 3,
           Connect 3 \<lparr>sin_family = 2, sin_port = 80, sin_addr = [127, 0, 0, 1]\<rparr>,
           Select 4 None, Getsockopt 3, Close 3],
          Exit 0)
   \<and> main (system 3 (0, 0) (0, False, False) (0, 0, 0)) [''tcping'', ''localhost'', ''80'']
       = ([Gethostbyname ''localhost'', Socket 3, Fcntl 3,
           Connect 3 \<lparr>sin_family = 2, sin_port = 80, sin_addr = [127, 0, 0, 1]\<rparr>,
           Close 3, Stdout (''localhost port 80 open.'' @ newline)],
          Exit 0)"
proof -
  let ?closed = "system 3 (- 1, 115) (1, False, True) (0, 111, 0)"
  let ?open = "system 3 (- 1, 115) (1, False, True) (0, 0, 0)"
  let ?now = "system 3 (0, 0) (0, False, False) (0, 0, 0)"
  let ?argv = "[''tcping'', ''localhost'', ''80'']"
  let ?quiet = "[''tcping'', ''localhost'', ''80'', ''-q'']"
  have len: "3 \<le> length ?argv" "3 \<le> length ?quiet"
    by simp_all
  have opts: "getopt_loop (getopt_start ?argv) (1, 0, 0) = Inr (1, 0, 0, [''localhost'', ''80''])"
    and qopts: "getopt_loop (getopt_start ?quiet) (1, 0, 0)
                  = Inr (0, 0, 0, [''localhost'', ''80''])"
    by (simp_all add: parse_defs)
  have host: "resolver ?closed ''localhost'' = Inr localhost"
    "resolver ?open ''localhost'' = Inr localhost"
    "resolver ?now ''localhost'' = Inr localhost"
    by (simp_all add: system_def)
  have port: "snd (strtol ''80'') \<noteq> 0"
    by code_simp
  have addr: "address localhost ''80''
                = \<lparr>sin_family = 2, sin_port = 80, sin_addr = [127, 0, 0, 1]\<rparr>"
    by code_simp
  have tmo: "select_timeout 0 0 = None"
    by code_simp
  have c1: "sys_connect ?closed (socket_result ?closed) (address localhost ''80'') = (- 1, 115)"
    and c2: "sys_connect ?open (socket_result ?open) (address localhost ''80'') = (- 1, 115)"
    and c3: "sys_connect ?now (socket_result ?now) (address localhost ''80'') = (0, 0)"
    by (simp_all add: system_def sys_connect_def)
  have s1: "select_result ?closed (select_timeout 0 0) = (1, False, True)"
    and s2: "select_result ?open (select_timeout 0 0) = (1, False, True)"
    and s3: "select_result ?now (select_timeout 0 0) = (0, False, False)"
    by (simp_all add: system_def)
  have g1: "getsockopt_result ?closed = (0, 111, 0)"
    and g2: "getsockopt_result ?open = (0, 0, 0)"
    and g3: "getsockopt_result ?now = (0, 0, 0)"
    by (simp_all add: system_def)
  have fd: "socket_result ?closed = 3" "socket_result ?open = 3" "socket_result ?now = 3"
    by (simp_all add: system_def)
  have pending: "sys_connect ?closed 3 (address localhost ''80'') = (- 1, EINPROGRESS)"
    using c1 by (simp add: fd EINPROGRESS_def)
  have closed: "main ?closed ?argv
       = ([Gethostbyname ''localhost'', Socket 3, Fcntl 3,
           Connect 3 \<lparr>sin_family = 2, sin_port = 80, sin_addr = [127, 0, 0, 1]\<rparr>,
           Select 4 None, Getsockopt 3,
           Stdout (''localhost port 80 closed.'' @ newline), Close 3],
          Exit 1)"
    using ready_socket_closed_or_open [OF len(1) opts host(1) port c1 s1 g1]
    by (simp add: EINPROGRESS_def fd addr tmo)
  have opened: "main ?open ?quiet
       = ([Gethostbyname ''localhost'', Socket 3, Fcntl 3,
           Connect 3 \<lparr>sin_family = 2, sin_port = 80, sin_addr = [127, 0, 0, 1]\<rparr>,
           Select 4 None, Getsockopt 3, Close 3],
          Exit 0)"
    using ready_socket_closed_or_open [OF len(2) qopts host(2) port c2 s2 g2]
    by (simp add: EINPROGRESS_def fd addr tmo)
  have now: "main ?now ?argv
       = ([Gethostbyname ''localhost'', Socket 3, Fcntl 3,
           Connect 3 \<lparr>sin_family = 2, sin_port = 80, sin_addr = [127, 0, 0, 1]\<rparr>,
           Close 3, Stdout (''localhost port 80 open.'' @ newline)],
          Exit 0)"
    using ready_socket_closed_or_open [OF len(1) opts host(3) port c3 s3 g3]
    by (simp add: fd addr)
  from pending closed opened now show ?thesis
    by simp
qed

subsection \<open>The timeout\<close>

text \<open>
  Claim C2. After a pending connect, with \<open>sec\<close> and \<open>usec\<close> the seconds and
  microseconds after the carry: when their sum is 0, \<open>select\<close> is called with the null
  pointer as its timeout and with no other timeout, and, on a system whose \<open>select\<close>
  without a timeout does not return 0, the run does not end with the exit code 2 or the
  timeout line; when their sum is positive and \<open>select\<close> returns 0, the run closes the
  socket, writes \<open><host> port <port> user timeout.\<close> on stdout unless the options made
  the run quiet (\<open>verbosity\<close> is 0), and ends with the exit code 2.
\<close>

theorem timeout_zero_or_elapsed:
  assumes "3 \<le> length argv"
    and "getopt_loop (getopt_start argv) (1, 0, 0)
           = Inr (verbosity, timeout_sec, timeout_usec, host # port # rest)"
    and "resolver w host = Inr he"
    and "snd (strtol port) \<noteq> 0"
    and "sys_connect w (socket_result w) (address he port) = (ret, EINPROGRESS)"
    and "ret \<noteq> 0"
    and "sec = wrap_long (timeout_sec + timeout_usec sdiv 1000000)"
    and "usec = timeout_usec smod 1000000"
  shows "(wrap_long (sec + usec) = 0 \<longrightarrow>
            Select (socket_result w + 1) None \<in> set (fst (main w argv))
          \<and> (\<forall>n t. Select n (Some t) \<notin> set (fst (main w argv)))
          \<and> (fst (select_result w None) \<noteq> 0 \<longrightarrow>
                snd (main w argv) \<noteq> Exit 2
              \<and> Stdout (host @ '' port '' @ port @ '' user timeout.'' @ newline)
                  \<notin> set (fst (main w argv))))
       \<and> (0 < wrap_long (sec + usec)
          \<and> fst (select_result w (Some \<lparr>tv_sec = sec, tv_usec = usec\<rparr>)) = 0 \<longrightarrow>
            main w argv
              = ([Gethostbyname host, Socket (socket_result w), Fcntl (socket_result w),
                  Connect (socket_result w) (address he port),
                  Select (socket_result w + 1) (Some \<lparr>tv_sec = sec, tv_usec = usec\<rparr>),
                  Close (socket_result w)]
                 @ (if verbosity = 0 then []
                    else [Stdout (host @ '' port '' @ port @ '' user timeout.'' @ newline)]),
                 Exit 2))"
proof -
  let ?run = "await w verbosity host port (socket_result w) timeout_sec timeout_usec"
  have run: "main w argv
               = ([Gethostbyname host, Socket (socket_result w), Fcntl (socket_result w),
                   Connect (socket_result w) (address he port)] @ fst ?run,
                  snd ?run)"
    by (simp add: main_probe [OF assms(1-4)] probe_pending [OF assms(5,6)] prefixed_def)
  have zero: "select_timeout timeout_sec timeout_usec = None" if "wrap_long (sec + usec) = 0"
    using that assms(7,8) by (simp add: select_timeout_def Let_def)
  have positive: "select_timeout timeout_sec timeout_usec = Some \<lparr>tv_sec = sec, tv_usec = usec\<rparr>"
    if "0 < wrap_long (sec + usec)"
    using that assms(7,8) by (simp add: select_timeout_def Let_def)
  obtain evs where evs: "fst ?run = Select (socket_result w + 1)
                                      (select_timeout timeout_sec timeout_usec) # evs"
    and none: "\<forall>n t. Select n t \<notin> set evs"
    using await_select by blast
  have a: "Select (socket_result w + 1) None \<in> set (fst (main w argv))
          \<and> (\<forall>n t. Select n (Some t) \<notin> set (fst (main w argv)))"
    if "wrap_long (sec + usec) = 0"
    using none by (simp add: run evs zero [OF that])
  have b: "snd (main w argv) \<noteq> Exit 2
          \<and> Stdout (host @ '' port '' @ port @ '' user timeout.'' @ newline)
              \<notin> set (fst (main w argv))"
    if "wrap_long (sec + usec) = 0" and "fst (select_result w None) \<noteq> 0"
    using await_exit_2 [of w verbosity host port "socket_result w" timeout_sec timeout_usec] that
    by (auto simp add: run zero)
  have c: "main w argv
              = ([Gethostbyname host, Socket (socket_result w), Fcntl (socket_result w),
                  Connect (socket_result w) (address he port),
                  Select (socket_result w + 1) (Some \<lparr>tv_sec = sec, tv_usec = usec\<rparr>),
                  Close (socket_result w)]
                 @ (if verbosity = 0 then []
                    else [Stdout (host @ '' port '' @ port @ '' user timeout.'' @ newline)]),
                 Exit 2)"
    if "0 < wrap_long (sec + usec)"
      and "fst (select_result w (Some \<lparr>tv_sec = sec, tv_usec = usec\<rparr>)) = 0"
  proof -
    have "fst (select_result w (select_timeout timeout_sec timeout_usec)) = 0"
      using that by (simp add: positive)
    then obtain r wr where
      "select_result w (select_timeout timeout_sec timeout_usec) = (0, r, wr)"
      by (cases "select_result w (select_timeout timeout_sec timeout_usec)") auto
    from await_timeout [OF this] show ?thesis
      by (simp add: run positive [OF that(1)] log_def)
  qed
  from a b c show ?thesis
    by blast
qed

text \<open>
  \<open>tcping localhost 80\<close> waits with no timeout. \<open>tcping -t 1 -u 1500000 localhost 80\<close>,
  on a system whose \<open>select\<close> returns 0, ends with the timeout line and the exit code 2;
  with the options after the port and \<open>-q\<close> among them, it ends with the exit code 2 and
  writes nothing.
\<close>

theorem timeout_zero_or_elapsed_witness:
  "wrap_long (wrap_long (0 + 0 sdiv 1000000) + 0 smod 1000000) = 0
   \<and> fst (select_result (system 3 (- 1, 115) (1, False, True) (0, 0, 0)) None) \<noteq> 0
   \<and> Select 4 None
       \<in> set (fst (main (system 3 (- 1, 115) (1, False, True) (0, 0, 0))
                     [''tcping'', ''localhost'', ''80'']))
   \<and> snd (main (system 3 (- 1, 115) (1, False, True) (0, 0, 0))
                [''tcping'', ''localhost'', ''80'']) \<noteq> Exit 2
   \<and> 0 < wrap_long (wrap_long (1 + 1500000 sdiv 1000000) + 1500000 smod 1000000)
   \<and> fst (select_result (system 3 (- 1, 115) (0, False, False) (0, 0, 0))
            (Some \<lparr>tv_sec = 2, tv_usec = 500000\<rparr>)) = 0
   \<and> main (system 3 (- 1, 115) (0, False, False) (0, 0, 0))
         [''tcping'', ''-t'', ''1'', ''-u'', ''1500000'', ''localhost'', ''80'']
       = ([Gethostbyname ''localhost'', Socket 3, Fcntl 3,
           Connect 3 \<lparr>sin_family = 2, sin_port = 80, sin_addr = [127, 0, 0, 1]\<rparr>,
           Select 4 (Some \<lparr>tv_sec = 2, tv_usec = 500000\<rparr>), Close 3,
           Stdout (''localhost port 80 user timeout.'' @ newline)],
          Exit 2)
   \<and> main (system 3 (- 1, 115) (0, False, False) (0, 0, 0))
         [''tcping'', ''localhost'', ''80'', ''-q'', ''-t'', ''1'', ''-u'', ''1500000'']
       = ([Gethostbyname ''localhost'', Socket 3, Fcntl 3,
           Connect 3 \<lparr>sin_family = 2, sin_port = 80, sin_addr = [127, 0, 0, 1]\<rparr>,
           Select 4 (Some \<lparr>tv_sec = 2, tv_usec = 500000\<rparr>), Close 3],
          Exit 2)"
proof -
  let ?ready = "system 3 (- 1, 115) (1, False, True) (0, 0, 0)"
  let ?silent = "system 3 (- 1, 115) (0, False, False) (0, 0, 0)"
  let ?argv = "[''tcping'', ''localhost'', ''80'']"
  let ?timed = "[''tcping'', ''-t'', ''1'', ''-u'', ''1500000'', ''localhost'', ''80'']"
  let ?quiet = "[''tcping'', ''localhost'', ''80'', ''-q'', ''-t'', ''1'', ''-u'', ''1500000'']"
  have len: "3 \<le> length ?argv" "3 \<le> length ?timed" "3 \<le> length ?quiet"
    by simp_all
  have n: "strtol ''1'' = (1, 1)" "strtol ''1500000'' = (1500000, 7)"
    by code_simp+
  have opts: "getopt_loop (getopt_start ?argv) (1, 0, 0) = Inr (1, 0, 0, [''localhost'', ''80''])"
    by (simp add: parse_defs)
  have topts: "getopt_loop (getopt_start ?timed) (1, 0, 0)
                 = Inr (1, 1, 1500000, [''localhost'', ''80''])"
    by (simp add: parse_defs n)
  have qopts: "getopt_loop (getopt_start ?quiet) (1, 0, 0)
                 = Inr (0, 1, 1500000, [''localhost'', ''80''])"
    by (simp add: parse_defs n)
  have host: "resolver ?ready ''localhost'' = Inr localhost"
    "resolver ?silent ''localhost'' = Inr localhost"
    by (simp_all add: system_def)
  have port: "snd (strtol ''80'') \<noteq> 0"
    by code_simp
  have addr: "address localhost ''80''
                = \<lparr>sin_family = 2, sin_port = 80, sin_addr = [127, 0, 0, 1]\<rparr>"
    by code_simp
  have c: "sys_connect ?ready (socket_result ?ready) (address localhost ''80'')
             = (- 1, EINPROGRESS)"
    "sys_connect ?silent (socket_result ?silent) (address localhost ''80'')
             = (- 1, EINPROGRESS)"
    by (simp_all add: system_def sys_connect_def EINPROGRESS_def)
  have ret: "(- 1 :: int) \<noteq> 0"
    by simp
  have zero: "0 = wrap_long (0 + 0 sdiv 1000000)" "0 = (0 :: int) smod 1000000"
    by code_simp+
  have carry: "2 = wrap_long (1 + 1500000 sdiv 1000000)"
    "500000 = (1500000 :: int) smod 1000000"
    by code_simp+
  have sel: "select_result ?ready None = (1, False, True)"
    "select_result ?silent (Some \<lparr>tv_sec = 2, tv_usec = 500000\<rparr>) = (0, False, False)"
    by (simp_all add: system_def)
  have fd: "socket_result ?ready = 3" "socket_result ?silent = 3"
    by (simp_all add: system_def)
  have a: "Select 4 None \<in> set (fst (main ?ready ?argv)) \<and> snd (main ?ready ?argv) \<noteq> Exit 2"
    using timeout_zero_or_elapsed [OF len(1) opts host(1) port c(1) ret zero]
    by (simp add: wrap_long_def sel fd)
  have b: "main ?silent ?timed
       = ([Gethostbyname ''localhost'', Socket 3, Fcntl 3,
           Connect 3 \<lparr>sin_family = 2, sin_port = 80, sin_addr = [127, 0, 0, 1]\<rparr>,
           Select 4 (Some \<lparr>tv_sec = 2, tv_usec = 500000\<rparr>), Close 3,
           Stdout (''localhost port 80 user timeout.'' @ newline)],
          Exit 2)"
    using timeout_zero_or_elapsed [OF len(2) topts host(2) port c(2) ret carry]
    by (simp add: wrap_long_def sel fd addr)
  have q: "main ?silent ?quiet
       = ([Gethostbyname ''localhost'', Socket 3, Fcntl 3,
           Connect 3 \<lparr>sin_family = 2, sin_port = 80, sin_addr = [127, 0, 0, 1]\<rparr>,
           Select 4 (Some \<lparr>tv_sec = 2, tv_usec = 500000\<rparr>), Close 3],
          Exit 2)"
    using timeout_zero_or_elapsed [OF len(3) qopts host(2) port c(2) ret carry]
    by (simp add: wrap_long_def sel fd addr)
  from a b q show ?thesis
    by (simp add: zero [symmetric] carry [symmetric] wrap_long_def sel)
qed

subsection \<open>Failures before and at the connect\<close>

text \<open>
  Claim C10. When \<open>socket\<close> fails (it returns a negative value), the run goes on with
  \<open>fcntl\<close> and \<open>connect\<close> on that value; \<open>connect\<close> fails with \<open>EBADF\<close>, so the only
  message is the one of the connect error (none in a quiet run), and the exit code is
  -1.
\<close>

theorem socket_failure_surfaces_at_connect:
  assumes "3 \<le> length argv"
    and "getopt_loop (getopt_start argv) (1, 0, 0)
           = Inr (verbosity, timeout_sec, timeout_usec, host # port # rest)"
    and "resolver w host = Inr he"
    and "snd (strtol port) \<noteq> 0"
    and "socket_result w < 0"
  shows "main w argv
           = ([Gethostbyname host, Socket (socket_result w), Fcntl (socket_result w),
               Connect (socket_result w) (address he port)]
              @ (if verbosity = 0 then []
                 else [Stderr (''error: '' @ host @ '' port '' @ port @ '': ''
                               @ strerror w EBADF @ newline)]),
              Exit (- 1))"
proof -
  have "sys_connect w (socket_result w) (address he port) = (- 1, EBADF)"
    using assms(5) by (simp add: sys_connect_def)
  from probe_connect_error [OF this] show ?thesis
    by (simp add: main_probe [OF assms(1-4)] prefixed_def EBADF_def EINPROGRESS_def log_def)
qed

text \<open>
  \<open>tcping localhost 80\<close> and \<open>tcping -q localhost 80\<close> on a system whose \<open>socket\<close>
  returns -1.
\<close>

theorem socket_failure_surfaces_at_connect_witness:
  "socket_result (system (- 1) (0, 0) (0, False, False) (0, 0, 0)) < 0
   \<and> main (system (- 1) (0, 0) (0, False, False) (0, 0, 0)) [''tcping'', ''localhost'', ''80'']
       = ([Gethostbyname ''localhost'', Socket (- 1), Fcntl (- 1),
           Connect (- 1) \<lparr>sin_family = 2, sin_port = 80, sin_addr = [127, 0, 0, 1]\<rparr>,
           Stderr (''error: localhost port 80: Bad file descriptor'' @ newline)],
          Exit (- 1))
   \<and> main (system (- 1) (0, 0) (0, False, False) (0, 0, 0))
         [''tcping'', ''-q'', ''localhost'', ''80'']
       = ([Gethostbyname ''localhost'', Socket (- 1), Fcntl (- 1),
           Connect (- 1) \<lparr>sin_family = 2, sin_port = 80, sin_addr = [127, 0, 0, 1]\<rparr>],
          Exit (- 1))"
proof -
  let ?w = "system (- 1) (0, 0) (0, False, False) (0, 0, 0)"
  let ?argv = "[''tcping'', ''localhost'', ''80'']"
  let ?quiet = "[''tcping'', ''-q'', ''localhost'', ''80'']"
  have len: "3 \<le> length ?argv" "3 \<le> length ?quiet"
    by simp_all
  have opts: "getopt_loop (getopt_start ?argv) (1, 0, 0) = Inr (1, 0, 0, [''localhost'', ''80''])"
    and qopts: "getopt_loop (getopt_start ?quiet) (1, 0, 0)
                  = Inr (0, 0, 0, [''localhost'', ''80''])"
    by (simp_all add: parse_defs)
  have host: "resolver ?w ''localhost'' = Inr localhost"
    by (simp add: system_def)
  have port: "snd (strtol ''80'') \<noteq> 0"
    by code_simp
  have addr: "address localhost ''80''
                = \<lparr>sin_family = 2, sin_port = 80, sin_addr = [127, 0, 0, 1]\<rparr>"
    by code_simp
  have fd: "socket_result ?w = - 1"
    by (simp add: system_def)
  then have neg: "socket_result ?w < 0"
    by simp
  have msg: "strerror ?w EBADF = ''Bad file descriptor''"
    by (simp add: system_def messages_def EBADF_def)
  from socket_failure_surfaces_at_connect [OF len(1) opts host port neg]
    socket_failure_surfaces_at_connect [OF len(2) qopts host port neg] neg
  show ?thesis
    by (simp add: fd addr msg)
qed

text \<open>
  Claim C7. When \<open>gethostbyname\<close> returns the null pointer, the run is that call, the
  line \<open>error: \<close> followed by the text of \<open>hstrerror(h_errno)\<close> on stderr unless the options
  made the run quiet (\<open>verbosity\<close> is 0), and the exit code -1 (status 255); no socket is
  created.
\<close>

theorem resolution_failure_exits:
  assumes "3 \<le> length argv"
    and "getopt_loop (getopt_start argv) (1, 0, 0)
           = Inr (verbosity, timeout_sec, timeout_usec, host # rest)"
    and "resolver w host = Inl h_errno"
  shows "main w argv
           = (Gethostbyname host
                # (if verbosity = 0 then []
                   else [Stderr (''error: '' @ hstrerror w h_errno @ newline)]),
              Exit (- 1))
         \<and> exit_status (snd (main w argv)) = Some 255
         \<and> (\<forall>fd. Socket fd \<notin> set (fst (main w argv)))"
  using assms by (simp add: main_def exit_status_def log_def)

text \<open>
  \<open>tcping nowhere.invalid 80\<close> and \<open>tcping nowhere.invalid 80 -q\<close>: the example system
  knows no such host.
\<close>

theorem resolution_failure_exits_witness:
  "resolver (system 3 (0, 0) (0, False, False) (0, 0, 0)) ''nowhere.invalid'' = Inl 1
   \<and> main (system 3 (0, 0) (0, False, False) (0, 0, 0)) [''tcping'', ''nowhere.invalid'', ''80'']
       = ([Gethostbyname ''nowhere.invalid'', Stderr (''error: Unknown host'' @ newline)],
          Exit (- 1))
   \<and> main (system 3 (0, 0) (0, False, False) (0, 0, 0))
         [''tcping'', ''nowhere.invalid'', ''80'', ''-q'']
       = ([Gethostbyname ''nowhere.invalid''], Exit (- 1))
   \<and> exit_status (snd (main (system 3 (0, 0) (0, False, False) (0, 0, 0))
                          [''tcping'', ''nowhere.invalid'', ''80''])) = Some 255"
proof -
  let ?w = "system 3 (0, 0) (0, False, False) (0, 0, 0)"
  let ?argv = "[''tcping'', ''nowhere.invalid'', ''80'']"
  let ?quiet = "[''tcping'', ''nowhere.invalid'', ''80'', ''-q'']"
  have len: "3 \<le> length ?argv" "3 \<le> length ?quiet"
    by simp_all
  have opts: "getopt_loop (getopt_start ?argv) (1, 0, 0)
                = Inr (1, 0, 0, ''nowhere.invalid'' # [''80''])"
    and qopts: "getopt_loop (getopt_start ?quiet) (1, 0, 0)
                  = Inr (0, 0, 0, ''nowhere.invalid'' # [''80''])"
    by (simp_all add: parse_defs)
  have host: "resolver ?w ''nowhere.invalid'' = Inl 1"
    by (simp add: system_def)
  have msg: "hstrerror ?w 1 = ''Unknown host''"
    by (simp add: system_def)
  from resolution_failure_exits [OF len(1) opts host]
    resolution_failure_exits [OF len(2) qopts host] host
  show ?thesis
    by (simp add: msg exit_status_def)
qed

subsection \<open>Numerals and C arithmetic\<close>

lemma digit_char:
  assumes "d < 10"
  shows "isdigit (char_of (48 + d))" and "digit_value (char_of (48 + d)) = int d"
    and "\<not> isspace (char_of (48 + d))" and "char_of (48 + d) \<noteq> CHR ''-''"
    and "char_of (48 + d) \<noteq> CHR ''+''"
proof -
  have v: "of_char (char_of (48 + d)) = 48 + d"
    using assms by (simp add: of_char_of)
  show "isdigit (char_of (48 + d))"
    using assms by (simp add: isdigit_def v)
  show "digit_value (char_of (48 + d)) = int d"
    unfolding digit_value_def v by simp
  have "of_char c \<noteq> (of_char (char_of (48 + d)) :: nat) \<Longrightarrow> char_of (48 + d) \<noteq> c" for c
    by auto
  then have ne: "of_char c < (48 :: nat) \<Longrightarrow> char_of (48 + d) \<noteq> c" for c
    unfolding v by simp
  show "\<not> isspace (char_of (48 + d))"
    unfolding isspace_def using ne [of "CHR '' ''"] ne [of "CHR 0x09"] ne [of "CHR 0x0A"]
      ne [of "CHR 0x0B"] ne [of "CHR 0x0C"] ne [of "CHR 0x0D"]
    by simp
  show "char_of (48 + d) \<noteq> CHR ''-''"
    using ne [of "CHR ''-''"] by simp
  show "char_of (48 + d) \<noteq> CHR ''+''"
    using ne [of "CHR ''+''"] by simp
qed

lemma digits_value_snoc:
  "digits_value (ds @ [c]) = 10 * digits_value ds + digit_value c"
  by (simp add: digits_value_def)

lemma dec_nat_digits:
  "list_all isdigit (dec_nat n) \<and> dec_nat n \<noteq> [] \<and> digits_value (dec_nat n) = int n"
proof (induction n rule: dec_nat.induct)
  case (1 n)
  show ?case
  proof (cases "n < 10")
    case True
    then show ?thesis
      by (subst (1 2 3) dec_nat.simps) (simp add: digit_char digits_value_def)
  next
    case False
    have "n mod 10 < 10"
      by simp
    moreover have "10 * int (n div 10) + int (n mod 10) = int n"
      by presburger
    ultimately show ?thesis
      using False 1 by (subst (1 2 3) dec_nat.simps) (simp add: digit_char digits_value_snoc)
  qed
qed

lemma dec_nat_head:
  "\<exists>d ds. dec_nat n = d # ds \<and> isdigit d \<and> \<not> isspace d \<and> d \<noteq> CHR ''-'' \<and> d \<noteq> CHR ''+''"
proof (induction n rule: dec_nat.induct)
  case (1 n)
  show ?case
  proof (cases "n < 10")
    case True
    then show ?thesis
      by (subst dec_nat.simps) (simp add: digit_char)
  next
    case False
    with 1 show ?thesis
      by (subst dec_nat.simps) auto
  qed
qed

lemma strtol_dec:
  "strtol (dec i) = (max LONG_MIN (min LONG_MAX i), length (dec i))"
proof -
  have all: "takeWhile isdigit (dec_nat n) = dec_nat n" for n
    using dec_nat_digits [of n] by (simp add: takeWhile_eq_all_conv list_all_iff)
  show ?thesis
  proof (cases "i < 0")
    case True
    then have "dec i = CHR ''-'' # dec_nat (nat (- i))"
      by (simp add: dec_def)
    moreover have "\<not> isspace CHR ''-''"
      by (simp add: isspace_def)
    ultimately show ?thesis
      using True dec_nat_digits [of "nat (- i)"] by (simp add: strtol_def all Let_def)
  next
    case False
    then have d: "dec i = dec_nat (nat i)"
      by (simp add: dec_def)
    obtain c cs where h: "dec_nat (nat i) = c # cs" "\<not> isspace c" "c \<noteq> CHR ''-''" "c \<noteq> CHR ''+''"
      using dec_nat_head by blast
    have "takeWhile isdigit (c # cs) = c # cs"
      using all [of "nat i"] h(1) by simp
    moreover have "digits_value (c # cs) = i"
      using dec_nat_digits [of "nat i"] h(1) False by simp
    ultimately show ?thesis
      using h by (simp add: strtol_def d Let_def)
  qed
qed

lemma strtol_dec_consumed:
  "snd (strtol (dec i)) \<noteq> 0"
proof -
  have "dec i \<noteq> []"
    using dec_nat_digits by (simp add: dec_def)
  then show ?thesis
    by (simp add: strtol_dec)
qed

lemma wrap_long_id:
  assumes "LONG_MIN \<le> x" and "x \<le> LONG_MAX"
  shows "wrap_long x = x"
  using assms by (simp add: wrap_long_def LONG_MIN_def LONG_MAX_def)

lemma htons_long_to_int:
  "htons (long_to_int x) = nat (x mod 65536)"
proof -
  have up: "(y + 2147483648) mod 65536 = y mod 65536" for y :: int
    using mod_mult_self2 [of y 65536 32768] by simp
  have down: "(y - 2147483648) mod 65536 = y mod 65536" for y :: int
    using mod_mult_self2 [of y 65536 "- 32768"] by simp
  have "(65536 :: int) dvd 4294967296"
    by simp
  then have low: "y mod 4294967296 mod 65536 = y mod 65536" for y :: int
    by (rule mod_mod_cancel)
  show ?thesis
    by (simp add: htons_def long_to_int_def up down low)
qed

lemma sdiv_smod_nonneg:
  assumes "0 \<le> (u :: int)"
  shows "u sdiv 1000000 = u div 1000000" and "u smod 1000000 = u mod 1000000"
  using assms by (simp_all add: signed_divide_int_def signed_modulo_int_def sgn_if)

lemma sdiv_smod_multiple:
  assumes "(u :: int) mod 1000000 = 0"
  shows "u sdiv 1000000 = u div 1000000" and "u smod 1000000 = 0"
proof -
  from assms have d: "(1000000 :: int) dvd u"
    by presburger
  then show "u sdiv 1000000 = u div 1000000"
    by (simp add: sdiv_int_div_0 signed_divide_int_eq_divide_int)
  from d show "u smod 1000000 = 0"
    by (simp add: signed_modulo_int_eq_modulo_int)
qed

text \<open>
  The timeout of \<open>select\<close> for \<open>timeout_sec = s\<close> and \<open>timeout_usec = u\<close>, where the
  division of C agrees with \<open>div\<close> and \<open>mod\<close> and no sum overflows.
\<close>

lemma select_timeout_carry:
  assumes "0 \<le> u \<or> u mod 1000000 = 0"
    and "LONG_MIN \<le> s + u div 1000000"
    and "s + u div 1000000 + u mod 1000000 \<le> LONG_MAX"
  shows "select_timeout s u
           = (if 0 < s + u div 1000000 + u mod 1000000
              then Some \<lparr>tv_sec = s + u div 1000000, tv_usec = u mod 1000000\<rparr>
              else None)"
proof -
  have c: "u sdiv 1000000 = u div 1000000" "u smod 1000000 = u mod 1000000"
    using assms(1) sdiv_smod_nonneg [of u] sdiv_smod_multiple [of u] by auto
  have r: "0 \<le> u mod 1000000"
    by simp
  have sec: "wrap_long (s + u div 1000000) = s + u div 1000000"
    using assms(2,3) r by (intro wrap_long_id) linarith+
  have sum: "wrap_long (s + u div 1000000 + u mod 1000000) = s + u div 1000000 + u mod 1000000"
    using assms(2,3) r by (intro wrap_long_id) linarith+
  show ?thesis
    by (simp add: select_timeout_def Let_def c sec sum)
qed

subsection \<open>The option loop\<close>

text \<open>Words that are not options are the operands, in their order.\<close>

lemma getopt_loop_operands:
  assumes "list_all nonoption ops"
  shows "getopt_loop \<lparr>unscanned = ops, nextchar = [], nonopts = passed\<rparr>
           (verbosity, timeout_sec, timeout_usec)
           = Inr (verbosity, timeout_sec, timeout_usec, passed @ ops)"
proof -
  have all: "takeWhile nonoption ops = ops" "dropWhile nonoption ops = []"
    using assms by (simp_all add: list_all_iff takeWhile_eq_all_conv)
  show ?thesis
    by (simp add: getopt_loop.simps getopt_def all)
qed

lemma getopt_loop_t_u:
  assumes "snd (strtol a) \<noteq> 0" and "snd (strtol b) \<noteq> 0" and "list_all nonoption ops"
  shows "getopt_loop (getopt_start (prog # ''-t'' # a # ''-u'' # b # ops)) (1, 0, 0)
           = Inr (1, fst (strtol a), fst (strtol b), ops)"
proof -
  have "getopt_loop (getopt_start (prog # ''-t'' # a # ''-u'' # b # ops)) (1, 0, 0)
          = getopt_loop \<lparr>unscanned = ''-u'' # b # ops, nextchar = [], nonopts = []\<rparr>
              (1, fst (strtol a), 0)"
    by (subst getopt_loop.simps)
       (simp add: getopt_start_def getopt_def nonoption_def next_option_def assms(1))
  also have "\<dots> = getopt_loop \<lparr>unscanned = ops, nextchar = [], nonopts = []\<rparr>
                      (1, fst (strtol a), fst (strtol b))"
    by (subst getopt_loop.simps)
       (simp add: getopt_def nonoption_def next_option_def assms(2))
  finally show ?thesis
    by (simp add: getopt_loop_operands [OF assms(3)])
qed

lemma probe_connect:
  "Connect (socket_result w) addr
     \<in> set (fst (probe w verbosity host port addr timeout_sec timeout_usec))"
  by (cases "sys_connect w (socket_result w) addr")
     (simp add: probe_def Let_def prefixed_def)

subsection \<open>The carry of the microseconds\<close>

text \<open>
  Claim C6, amended. Let \<open>s\<close> and \<open>u\<close> be in the range of \<open>long\<close>, \<open>u\<close> not negative or
  a multiple of 1000000, with \<open>s + u div 1000000\<close> and its sum with \<open>u mod 1000000\<close> in the
  range of \<open>long\<close>. Then a pending connect is awaited with the timeout of
  \<open>s + u div 1000000\<close> seconds and \<open>u mod 1000000\<close> microseconds when the sum of the two
  is positive, and with no timeout otherwise: for \<open>-t s -u u\<close> before operands, and for
  every command line that the option loop reads as these two values. The runs with
  \<open>-t 1 -u 1500000\<close> and with \<open>-t 2 -u 500000\<close> are the same.
\<close>

theorem microseconds_carry:
  assumes "LONG_MIN \<le> s" and "s \<le> LONG_MAX" and "LONG_MIN \<le> u" and "u \<le> LONG_MAX"
    and "0 \<le> u \<or> u mod 1000000 = 0"
    and "LONG_MIN \<le> s + u div 1000000"
    and "s + u div 1000000 + u mod 1000000 \<le> LONG_MAX"
    and "list_all nonoption (host # port # rest)"
    and "resolver w host = Inr he"
    and "snd (strtol port) \<noteq> 0"
    and "sys_connect w (socket_result w) (address he port) = (ret, EINPROGRESS)"
    and "ret \<noteq> 0"
  shows "Select (socket_result w + 1)
           (if 0 < s + u div 1000000 + u mod 1000000
            then Some \<lparr>tv_sec = s + u div 1000000, tv_usec = u mod 1000000\<rparr>
            else None)
           \<in> set (fst (main w (prog # ''-t'' # dec s # ''-u'' # dec u # host # port # rest)))
         \<and> (\<forall>argv verbosity.
               3 \<le> length argv
               \<and> getopt_loop (getopt_start argv) (1, 0, 0)
                   = Inr (verbosity, s, u, host # port # rest) \<longrightarrow>
               Select (socket_result w + 1)
                 (if 0 < s + u div 1000000 + u mod 1000000
                  then Some \<lparr>tv_sec = s + u div 1000000, tv_usec = u mod 1000000\<rparr>
                  else None)
                 \<in> set (fst (main w argv)))
         \<and> main w (prog # ''-t'' # ''1'' # ''-u'' # ''1500000'' # host # port # rest)
             = main w (prog # ''-t'' # ''2'' # ''-u'' # ''500000'' # host # port # rest)"
proof -
  let ?argv = "prog # ''-t'' # dec s # ''-u'' # dec u # host # port # rest"
  let ?deadline = "if 0 < s + u div 1000000 + u mod 1000000
            then Some \<lparr>tv_sec = s + u div 1000000, tv_usec = u mod 1000000\<rparr>
            else None"
  have read: "fst (strtol (dec s)) = s" "fst (strtol (dec u)) = u"
    using assms(1-4) by (simp_all add: strtol_dec)
  have opts: "getopt_loop (getopt_start ?argv) (1, 0, 0) = Inr (1, s, u, host # port # rest)"
    using getopt_loop_t_u [OF strtol_dec_consumed strtol_dec_consumed assms(8)]
    by (simp add: read)
  have general: "Select (socket_result w + 1) ?deadline \<in> set (fst (main w argv))"
    if "3 \<le> length argv"
      and "getopt_loop (getopt_start argv) (1, 0, 0) = Inr (verbosity, s, u, host # port # rest)"
    for argv verbosity
  proof -
    obtain evs where evs:
      "fst (await w verbosity host port (socket_result w) s u)
         = Select (socket_result w + 1) (select_timeout s u) # evs"
      using await_select by blast
    have "Select (socket_result w + 1) (select_timeout s u) \<in> set (fst (main w argv))"
      by (simp add: main_probe [OF that assms(9,10)] probe_pending [OF assms(11,12)]
                    prefixed_def evs)
    then show ?thesis
      by (simp only: select_timeout_carry [OF assms(5-7)])
  qed
  have len: "3 \<le> length ?argv"
    by simp
  note carry = general [OF len opts]
  let ?one = "prog # ''-t'' # ''1'' # ''-u'' # ''1500000'' # host # port # rest"
  let ?two = "prog # ''-t'' # ''2'' # ''-u'' # ''500000'' # host # port # rest"
  have n: "strtol ''1'' = (1, 1)" "strtol ''1500000'' = (1500000, 7)"
    "strtol ''2'' = (2, 1)" "strtol ''500000'' = (500000, 6)"
    by code_simp+
  have one: "getopt_loop (getopt_start ?one) (1, 0, 0) = Inr (1, 1, 1500000, host # port # rest)"
    using getopt_loop_t_u [of "''1''" "''1500000''" "host # port # rest" prog] assms(8)
    by (simp add: n)
  have two: "getopt_loop (getopt_start ?two) (1, 0, 0) = Inr (1, 2, 500000, host # port # rest)"
    using getopt_loop_t_u [of "''2''" "''500000''" "host # port # rest" prog] assms(8)
    by (simp add: n)
  have same: "select_timeout 1 1500000 = select_timeout 2 500000"
    by code_simp
  have "await w 1 host port (socket_result w) 1 1500000
          = await w 1 host port (socket_result w) 2 500000"
    by (simp add: await_def same)
  moreover have "3 \<le> length ?one" "3 \<le> length ?two"
    by simp_all
  ultimately have "main w ?one = main w ?two"
    using one two by (simp add: main_probe [OF _ _ assms(9,10)] probe_pending [OF assms(11,12)])
  with carry general show ?thesis
    by blast
qed

text \<open>
  \<open>tcping -t 1 -u 1500000 localhost 80\<close> waits at most 2 seconds and 500000
  microseconds, and so does \<open>tcping localhost -u1500000 80 -t1\<close>.
\<close>

theorem microseconds_carry_witness:
  "dec 1 = ''1'' \<and> dec 1500000 = ''1500000''
   \<and> (0 :: int) < 1 + 1500000 div 1000000 + 1500000 mod 1000000
   \<and> 1 + 1500000 div 1000000 + 1500000 mod 1000000 \<le> LONG_MAX
   \<and> list_all nonoption [''localhost'', ''80'']
   \<and> Select 4 (Some \<lparr>tv_sec = 2, tv_usec = 500000\<rparr>)
       \<in> set (fst (main (system 3 (- 1, 115) (0, False, False) (0, 0, 0))
                     [''tcping'', ''-t'', ''1'', ''-u'', ''1500000'', ''localhost'', ''80'']))
   \<and> getopt_loop (getopt_start [''tcping'', ''localhost'', ''-u1500000'', ''80'', ''-t1''])
         (1, 0, 0) = Inr (1, 1, 1500000, [''localhost'', ''80''])
   \<and> Select 4 (Some \<lparr>tv_sec = 2, tv_usec = 500000\<rparr>)
       \<in> set (fst (main (system 3 (- 1, 115) (0, False, False) (0, 0, 0))
                     [''tcping'', ''localhost'', ''-u1500000'', ''80'', ''-t1'']))
   \<and> main (system 3 (- 1, 115) (0, False, False) (0, 0, 0))
         [''tcping'', ''-t'', ''1'', ''-u'', ''1500000'', ''localhost'', ''80'']
       = main (system 3 (- 1, 115) (0, False, False) (0, 0, 0))
           [''tcping'', ''-t'', ''2'', ''-u'', ''500000'', ''localhost'', ''80'']"
proof -
  let ?w = "system 3 (- 1, 115) (0, False, False) (0, 0, 0)"
  let ?mixed = "[''tcping'', ''localhost'', ''-u1500000'', ''80'', ''-t1'']"
  have r: "LONG_MIN \<le> 1" "1 \<le> LONG_MAX" "LONG_MIN \<le> 1500000" "1500000 \<le> LONG_MAX"
    "(0 :: int) \<le> 1500000 \<or> (1500000 :: int) mod 1000000 = 0"
    "LONG_MIN \<le> 1 + 1500000 div 1000000"
    "1 + 1500000 div 1000000 + 1500000 mod 1000000 \<le> LONG_MAX"
    by (simp_all add: LONG_MAX_def LONG_MIN_def)
  have pos: "(0 :: int) < 1 + 1500000 div 1000000 + 1500000 mod 1000000"
    by simp
  have d: "dec 1 = ''1''" "dec 1500000 = ''1500000''"
    by (simp_all add: dec_def dec_nat.simps char_of_eq_iff)
  have ops: "list_all nonoption (''localhost'' # ''80'' # [])"
    by (simp add: nonoption_def)
  have host: "resolver ?w ''localhost'' = Inr localhost"
    by (simp add: system_def)
  have port: "snd (strtol ''80'') \<noteq> 0"
    by code_simp
  have c: "sys_connect ?w (socket_result ?w) (address localhost ''80'') = (- 1, EINPROGRESS)"
    by (simp add: system_def sys_connect_def EINPROGRESS_def)
  have ret: "(- 1 :: int) \<noteq> 0"
    by simp
  have fd: "socket_result ?w = 3"
    by (simp add: system_def)
  have n: "strtol ''1'' = (1, 1)" "strtol ''1500000'' = (1500000, 7)"
    by code_simp+
  have mixed: "3 \<le> length ?mixed
     \<and> getopt_loop (getopt_start ?mixed) (1, 0, 0) = Inr (1, 1, 1500000, ''localhost'' # ''80'' # [])"
    by (simp add: parse_defs n)
  note carried = microseconds_carry [OF r ops host port c ret, of "''tcping''"]
  have a: "Select 4 (Some \<lparr>tv_sec = 2, tv_usec = 500000\<rparr>)
       \<in> set (fst (main ?w [''tcping'', ''-t'', ''1'', ''-u'', ''1500000'', ''localhost'', ''80'']))"
    using carried [THEN conjunct1] by (simp add: d fd)
  have b: "Select 4 (Some \<lparr>tv_sec = 2, tv_usec = 500000\<rparr>) \<in> set (fst (main ?w ?mixed))"
    using carried [THEN conjunct2, THEN conjunct1, rule_format, OF mixed] by (simp add: fd)
  have e: "main ?w [''tcping'', ''-t'', ''1'', ''-u'', ''1500000'', ''localhost'', ''80'']
       = main ?w [''tcping'', ''-t'', ''2'', ''-u'', ''500000'', ''localhost'', ''80'']"
    using carried [THEN conjunct2, THEN conjunct2] .
  from d pos r(7) ops a mixed b e show ?thesis
    by blast
qed

text \<open>
  The claim as stated fails for \<open>-t 1 -u -1\<close>: one second and one microsecond less than
  none, truncated or not, is not zero, yet \<open>select\<close> is called with no timeout.
\<close>

theorem microseconds_carry_counterexample:
  "dec 1 = ''1'' \<and> dec (- 1) = ''-1''
   \<and> main (system 3 (- 1, 115) (1, False, True) (0, 0, 0))
         [''tcping'', ''-t'', ''1'', ''-u'', ''-1'', ''localhost'', ''80'']
       = ([Gethostbyname ''localhost'', Socket 3, Fcntl 3,
           Connect 3 \<lparr>sin_family = 2, sin_port = 80, sin_addr = [127, 0, 0, 1]\<rparr>,
           Select 4 None, Getsockopt 3, Close 3,
           Stdout (''localhost port 80 open.'' @ newline)],
          Exit 0)
   \<and> Select 4 (Some \<lparr>tv_sec = 1 + (- 1) div 1000000, tv_usec = (- 1) mod 1000000\<rparr>)
       \<notin> set (fst (main (system 3 (- 1, 115) (1, False, True) (0, 0, 0))
                     [''tcping'', ''-t'', ''1'', ''-u'', ''-1'', ''localhost'', ''80'']))
   \<and> Select 4 (Some \<lparr>tv_sec = 1 + (- 1) sdiv 1000000, tv_usec = (- 1) smod 1000000\<rparr>)
       \<notin> set (fst (main (system 3 (- 1, 115) (1, False, True) (0, 0, 0))
                     [''tcping'', ''-t'', ''1'', ''-u'', ''-1'', ''localhost'', ''80'']))"
proof -
  have n: "strtol ''1'' = (1, 1)" "strtol ''-1'' = (- 1, 2)" "strtol ''80'' = (80, 2)"
    by code_simp+
  have t: "select_timeout 1 (- 1) = None"
    by code_simp
  have run: "main (system 3 (- 1, 115) (1, False, True) (0, 0, 0))
         [''tcping'', ''-t'', ''1'', ''-u'', ''-1'', ''localhost'', ''80'']
       = ([Gethostbyname ''localhost'', Socket 3, Fcntl 3,
           Connect 3 \<lparr>sin_family = 2, sin_port = 80, sin_addr = [127, 0, 0, 1]\<rparr>,
           Select 4 None, Getsockopt 3, Close 3,
           Stdout (''localhost port 80 open.'' @ newline)],
          Exit 0)"
    by (simp add: main_def parse_defs n t argv0_def log_def probe_def await_def established_def
                  prefixed_def sys_connect_def address_def htons_def long_to_int_def
                  EINPROGRESS_def system_def localhost_def)
  have d: "dec 1 = ''1''" "dec (- 1) = ''-1''"
    by (simp_all add: dec_def dec_nat.simps char_of_eq_iff)
  show ?thesis
    unfolding run by (simp add: d)
qed

text \<open>
  Beyond the range of \<open>long\<close> the value of \<open>-u\<close> is replaced by \<open>LONG_MAX\<close>: for
  \<open>-u 9223372036854775808\<close> the microseconds of the timeout are 775807, not 775808.
\<close>

lemma microseconds_beyond_long:
  "Select 4 (Some \<lparr>tv_sec = 9223372036854, tv_usec = 775807\<rparr>)
     \<in> set (fst (main (system 3 (- 1, 115) (0, False, False) (0, 0, 0))
                   [''tcping'', ''-u'', ''9223372036854775808'', ''localhost'', ''80'']))
   \<and> (9223372036854775808 :: int) mod 1000000 = 775808"
proof -
  have n: "strtol ''9223372036854775808'' = (9223372036854775807, 19)" "strtol ''80'' = (80, 2)"
    by code_simp+
  have t: "select_timeout 0 9223372036854775807
             = Some \<lparr>tv_sec = 9223372036854, tv_usec = 775807\<rparr>"
    by code_simp
  show ?thesis
    by (simp add: main_def parse_defs n t argv0_def log_def probe_def await_def established_def
                  prefixed_def sys_connect_def address_def htons_def long_to_int_def
                  EINPROGRESS_def system_def localhost_def)
qed

text \<open>
  When the sum of the seconds and the microseconds is beyond \<open>LONG_MAX\<close> it wraps
  around to a negative value: for \<open>-t 9223372036854775807 -u 1\<close> the wait has no
  timeout.
\<close>

lemma microseconds_sum_overflow:
  "Select 4 None
     \<in> set (fst (main (system 3 (- 1, 115) (0, False, False) (0, 0, 0))
                   [''tcping'', ''-t'', ''9223372036854775807'', ''-u'', ''1'', ''localhost'',
                    ''80'']))
   \<and> LONG_MAX < 9223372036854775807 + 1 div 1000000 + 1 mod 1000000"
proof -
  have n: "strtol ''9223372036854775807'' = (9223372036854775807, 19)" "strtol ''1'' = (1, 1)"
    "strtol ''80'' = (80, 2)"
    by code_simp+
  have t: "select_timeout 9223372036854775807 1 = None"
    by code_simp
  show ?thesis
    by (simp add: main_def parse_defs n t argv0_def log_def probe_def await_def established_def
                  prefixed_def sys_connect_def address_def htons_def long_to_int_def
                  EINPROGRESS_def system_def localhost_def LONG_MAX_def)
qed

subsection \<open>The port\<close>

text \<open>
  Claim C9, amended. No port is rejected: when the second operand is the decimal
  numeral of an integer \<open>p\<close> (for a negative one the operands follow \<open>--\<close>, or \<open>getopt\<close>
  reads it as an option), the run calls \<open>connect\<close> with the port that is \<open>p\<close>, first
  brought into the range of \<open>long\<close> as \<open>strtol\<close> does (\<open>LONG_MAX\<close> above it, \<open>LONG_MIN\<close>
  below it), modulo 65536. For \<open>p\<close> in the range of \<open>long\<close> this is \<open>p mod 65536\<close>.
\<close>

theorem port_modulo_65536:
  assumes "3 \<le> length argv"
    and "getopt_loop (getopt_start argv) (1, 0, 0)
           = Inr (verbosity, timeout_sec, timeout_usec, host # dec p # rest)"
    and "resolver w host = Inr he"
  shows "Connect (socket_result w)
           \<lparr>sin_family = h_addrtype he,
            sin_port = nat (max LONG_MIN (min LONG_MAX p) mod 65536),
            sin_addr = take (h_length he) (h_addr he)\<rparr>
           \<in> set (fst (main w argv))
         \<and> (LONG_MIN \<le> p \<and> p \<le> LONG_MAX \<longrightarrow>
              Connect (socket_result w)
                \<lparr>sin_family = h_addrtype he,
                 sin_port = nat (p mod 65536),
                 sin_addr = take (h_length he) (h_addr he)\<rparr>
                \<in> set (fst (main w argv)))"
proof -
  have "address he (dec p)
          = \<lparr>sin_family = h_addrtype he,
             sin_port = nat (max LONG_MIN (min LONG_MAX p) mod 65536),
             sin_addr = take (h_length he) (h_addr he)\<rparr>"
    by (simp add: address_def strtol_dec htons_long_to_int)
  then have "Connect (socket_result w)
           \<lparr>sin_family = h_addrtype he,
            sin_port = nat (max LONG_MIN (min LONG_MAX p) mod 65536),
            sin_addr = take (h_length he) (h_addr he)\<rparr>
           \<in> set (fst (main w argv))"
    using probe_connect [of w "address he (dec p)" verbosity host "dec p" timeout_sec timeout_usec]
    by (simp add: main_probe [OF assms(1-3) strtol_dec_consumed] prefixed_def)
  then show ?thesis
    by auto
qed

text \<open>
  \<open>tcping localhost 65536\<close> probes port 0, and \<open>tcping -- localhost -1\<close> port 65535;
  without the \<open>--\<close>, \<open>-1\<close> is an option that \<open>getopt\<close> rejects.
\<close>

theorem port_modulo_65536_witness:
  "dec 65536 = ''65536'' \<and> dec (- 1) = ''-1'' \<and> LONG_MIN \<le> 65536 \<and> 65536 \<le> LONG_MAX
   \<and> LONG_MIN \<le> - 1 \<and> - 1 \<le> LONG_MAX
   \<and> getopt_loop (getopt_start [''tcping'', ''--'', ''localhost'', ''-1'']) (1, 0, 0)
       = Inr (1, 0, 0, [''localhost'', ''-1''])
   \<and> getopt_loop (getopt_start [''tcping'', ''localhost'', ''-1'']) (1, 0, 0)
       = Inl [Getopt_error CHR ''1'']
   \<and> Connect 3 \<lparr>sin_family = 2, sin_port = 0, sin_addr = [127, 0, 0, 1]\<rparr>
       \<in> set (fst (main (system 3 (0, 0) (0, False, False) (0, 0, 0))
                     [''tcping'', ''localhost'', ''65536'']))
   \<and> Connect 3 \<lparr>sin_family = 2, sin_port = 65535, sin_addr = [127, 0, 0, 1]\<rparr>
       \<in> set (fst (main (system 3 (0, 0) (0, False, False) (0, 0, 0))
                     [''tcping'', ''--'', ''localhost'', ''-1'']))"
proof -
  let ?w = "system 3 (0, 0) (0, False, False) (0, 0, 0)"
  have d: "dec 65536 = ''65536''" "dec (- 1) = ''-1''"
    by (simp_all add: dec_def dec_nat.simps char_of_eq_iff)
  have len: "3 \<le> length [''tcping'', ''localhost'', ''65536'']"
    "3 \<le> length [''tcping'', ''--'', ''localhost'', ''-1'']"
    by simp_all
  have opts: "getopt_loop (getopt_start [''tcping'', ''localhost'', ''65536'']) (1, 0, 0)
                = Inr (1, 0, 0, ''localhost'' # dec 65536 # [])"
    "getopt_loop (getopt_start [''tcping'', ''--'', ''localhost'', ''-1'']) (1, 0, 0)
                = Inr (1, 0, 0, ''localhost'' # dec (- 1) # [])"
    by (simp_all add: parse_defs d)
  have rejected: "getopt_loop (getopt_start [''tcping'', ''localhost'', ''-1'']) (1, 0, 0)
                    = Inl [Getopt_error CHR ''1'']"
    by (simp add: parse_defs)
  have host: "resolver ?w ''localhost'' = Inr localhost"
    by (simp add: system_def)
  have range: "LONG_MIN \<le> 65536" "65536 \<le> LONG_MAX" "LONG_MIN \<le> - 1" "- 1 \<le> LONG_MAX"
    by (simp_all add: LONG_MIN_def LONG_MAX_def)
  have fd: "socket_result ?w = 3"
    by (simp add: system_def)
  have he: "h_addrtype localhost = 2" "take (h_length localhost) (h_addr localhost) = [127, 0, 0, 1]"
    by (simp_all add: localhost_def)
  have a: "Connect 3 \<lparr>sin_family = 2, sin_port = 0, sin_addr = [127, 0, 0, 1]\<rparr>
       \<in> set (fst (main ?w [''tcping'', ''localhost'', ''65536'']))"
    using port_modulo_65536 [OF len(1) opts(1) host, THEN conjunct2] range
    by (simp add: fd he)
  have b: "Connect 3 \<lparr>sin_family = 2, sin_port = 65535, sin_addr = [127, 0, 0, 1]\<rparr>
       \<in> set (fst (main ?w [''tcping'', ''--'', ''localhost'', ''-1'']))"
    using port_modulo_65536 [OF len(2) opts(2) host, THEN conjunct2] range
    by (simp add: fd he)
  from d range opts rejected a b show ?thesis
    by (simp add: d)
qed

text \<open>
  The claim as stated fails for a numeral beyond \<open>long\<close>: \<open>18446744073709551696\<close> is
  \<open>80\<close> modulo 65536 (it is \<open>2 ^ 64 + 80\<close>), and the port probed is 65535.
\<close>

theorem port_modulo_65536_counterexample:
  "dec 18446744073709551696 = ''18446744073709551696''
   \<and> (18446744073709551696 :: int) mod 65536 = 80
   \<and> Connect 3 \<lparr>sin_family = 2, sin_port = 65535, sin_addr = [127, 0, 0, 1]\<rparr>
       \<in> set (fst (main (system 3 (0, 0) (0, False, False) (0, 0, 0))
                     [''tcping'', ''localhost'', ''18446744073709551696'']))
   \<and> Connect 3 \<lparr>sin_family = 2, sin_port = 80, sin_addr = [127, 0, 0, 1]\<rparr>
       \<notin> set (fst (main (system 3 (0, 0) (0, False, False) (0, 0, 0))
                     [''tcping'', ''localhost'', ''18446744073709551696'']))"
proof -
  have run: "main (system 3 (0, 0) (0, False, False) (0, 0, 0))
               [''tcping'', ''localhost'', ''18446744073709551696'']
       = ([Gethostbyname ''localhost'', Socket 3, Fcntl 3,
           Connect 3 \<lparr>sin_family = 2, sin_port = 65535, sin_addr = [127, 0, 0, 1]\<rparr>,
           Close 3, Stdout (''localhost port 18446744073709551696 open.'' @ newline)],
          Exit 0)"
    by (simp add: run_defs)
  have d: "dec 18446744073709551696 = ''18446744073709551696''"
    by (simp add: dec_def dec_nat.simps char_of_eq_iff)
  show ?thesis
    unfolding run by (simp add: d)
qed

subsection \<open>Quiet runs\<close>

text \<open>The verbosity has no influence on what the loop reads.\<close>

lemma getopt_loop_verbosity:
  "getopt_loop st (0, fst (snd vars), snd (snd vars))
     = (case getopt_loop st vars of
          Inl msgs \<Rightarrow> Inl msgs
        | Inr (v, ts, tu, ops) \<Rightarrow> Inr (0, ts, tu, ops))"
proof (induction st vars rule: getopt_loop.induct)
  case (1 st verbosity timeout_sec timeout_usec)
  obtain c optarg msgs st' where g: "getopt ''qt:u:'' st = ((c, optarg, msgs), st')"
    by (metis prod.exhaust)
  show ?case
  proof (cases c)
    case None
    then show ?thesis
      by (simp add: getopt_loop.simps [of st] g)
  next
    case (Some y)
    note ih = 1(1-3) [OF g [symmetric] refl Some refl]
    show ?thesis
      using ih by (simp add: getopt_loop.simps [of st] g Some)
  qed
qed

text \<open>
  Words added at the end of the command line do not change what \<open>getopt\<close> returns for
  an option that stands before them, unless that option is the last word and waits
  for its value.
\<close>

lemma next_option_append:
  assumes "next_option os c cs rest passed = ((Some y, optarg, msgs), st')"
    and "y \<noteq> CHR ''?''"
  shows "next_option os c cs (rest @ post) passed
           = ((Some y, optarg, msgs), st'\<lparr>unscanned := unscanned st' @ post\<rparr>)
         \<and> set (unscanned st') \<subseteq> set rest"
  using assms
  by (auto simp: next_option_def split: option.splits bool.splits if_splits list.splits)

lemma getopt_append:
  assumes "getopt os st = ((Some y, optarg, msgs), st')"
    and "y \<noteq> CHR ''?''"
  shows "getopt os (st\<lparr>unscanned := unscanned st @ post\<rparr>)
           = ((Some y, optarg, msgs), st'\<lparr>unscanned := unscanned st' @ post\<rparr>)
         \<and> set (unscanned st') \<subseteq> set (unscanned st)"
proof (cases "nextchar st")
  case (Cons d ds)
  with assms(1) have "next_option os d ds (unscanned st) (nonopts st)
                        = ((Some y, optarg, msgs), st')"
    by (simp add: getopt_def)
  from next_option_append [OF this assms(2)] Cons show ?thesis
    by (simp add: getopt_def)
next
  case Nil
  from assms(1) Nil obtain c0 d ds rest where
    a: "dropWhile nonoption (unscanned st) = (c0 # d # ds) # rest" and
    n: "next_option os d ds rest (nonopts st @ takeWhile nonoption (unscanned st))
          = ((Some y, optarg, msgs), st')" and
    dd: "c0 # d # ds \<noteq> ''--''"
    by (auto simp: getopt_def Let_def split: list.splits if_splits)
  from a have split: "unscanned st = takeWhile nonoption (unscanned st) @ (c0 # d # ds) # rest"
    and opt: "\<not> nonoption (c0 # d # ds)"
    by (simp_all add: dropWhile_eq_Cons_conv)
  have mem: "c0 # d # ds \<in> set (unscanned st)"
    by (subst split) simp
  have t: "takeWhile nonoption (unscanned st @ post) = takeWhile nonoption (unscanned st)"
    using mem opt by (rule takeWhile_append1)
  have d: "dropWhile nonoption (unscanned st @ post) = ((c0 # d # ds) # rest) @ post"
    using dropWhile_append1 [of "c0 # d # ds" "unscanned st" nonoption post] mem opt a by simp
  have sub: "set rest \<subseteq> set (unscanned st)"
    by (subst split) auto
  note na = next_option_append [OF n assms(2), of post]
  have 1: "getopt os (st\<lparr>unscanned := unscanned st @ post\<rparr>)
             = ((Some y, optarg, msgs), st'\<lparr>unscanned := unscanned st' @ post\<rparr>)"
    using na [THEN conjunct1] Nil dd
    by (simp add: getopt_def t d Let_def del: dropWhile_append takeWhile_append)
  have 2: "set (unscanned st') \<subseteq> set (unscanned st)"
    using na [THEN conjunct2] sub by (rule subset_trans)
  from 1 2 show ?thesis
    by (rule conjI)
qed

text \<open>
  When the loop has read the words \<open>unscanned st\<close> to their end, and \<open>--\<close> is not one of
  them, then with the words \<open>post\<close> behind them it goes on with \<open>post\<close>, from the
  variables and the operands that it had at that end.
\<close>

lemma getopt_loop_append:
  assumes "''--'' \<notin> set (unscanned st)"
    and "getopt_loop st vars = Inr (v, ts, tu, ops)"
  shows "getopt_loop (st\<lparr>unscanned := unscanned st @ post\<rparr>) vars
           = getopt_loop \<lparr>unscanned = post, nextchar = [], nonopts = ops\<rparr> (v, ts, tu)"
  using assms
proof (induction st vars rule: getopt_loop.induct)
  case (1 st verbosity timeout_sec timeout_usec)
  obtain c optarg msgs st' where g: "getopt ''qt:u:'' st = ((c, optarg, msgs), st')"
    by (metis prod.exhaust)
  show ?case
  proof (cases c)
    case None
    from g None have nc: "nextchar st = []"
      by (auto simp: getopt_def next_option_def
               split: list.splits option.splits bool.splits if_splits)
    have all: "dropWhile nonoption (unscanned st) = []"
    proof (cases "dropWhile nonoption (unscanned st)")
      case (Cons a rest)
      then have "a \<in> set (dropWhile nonoption (unscanned st))"
        by simp
      then have "a \<in> set (unscanned st)"
        by (rule set_dropWhileD)
      moreover from Cons have "\<not> nonoption a"
        by (simp add: dropWhile_eq_Cons_conv)
      ultimately have "a \<in> set (unscanned st)" "\<not> nonoption a"
        by simp_all
      with 1(4) have "a \<noteq> ''--''" "\<exists>c0 d ds. a = c0 # d # ds"
        by (auto simp: nonoption_def neq_Nil_conv split: list.splits)
      with g None nc Cons show ?thesis
        by (auto simp: getopt_def Let_def next_option_def
                 split: option.splits bool.splits if_splits list.splits)
    qed simp
    then have every: "\<forall>x\<in>set (unscanned st). nonoption x"
      by simp
    have tw: "takeWhile nonoption (unscanned st) = unscanned st"
      using every by simp
    have st': "nonopts st' = nonopts st @ unscanned st"
      using g nc all tw by (auto simp: getopt_def Let_def)
    have res: "ops = nonopts st @ unscanned st" "v = verbosity" "ts = timeout_sec"
      "tu = timeout_usec"
      using 1(5) g None st' by (simp_all add: getopt_loop.simps [of st])
    have same: "getopt ''qt:u:'' (st\<lparr>unscanned := unscanned st @ post\<rparr>)
                  = getopt ''qt:u:'' \<lparr>unscanned = post, nextchar = [],
                                       nonopts = nonopts st @ unscanned st\<rparr>"
      using every nc by (simp add: getopt_def Let_def)
    show ?thesis
      unfolding res
      by (subst getopt_loop.simps, subst (2) getopt_loop.simps) (simp only: same)
  next
    case (Some y)
    from 1(5) g Some have y: "y \<noteq> CHR ''?''"
      by (auto simp: getopt_loop.simps [of st])
    note ga = getopt_append [OF g [unfolded Some] y, of post]
    have dd: "''--'' \<notin> set (unscanned st')"
      using ga 1(4) by auto
    from 1(5) g Some have run:
      "(if y = CHR ''q'' then getopt_loop st' (0, timeout_sec, timeout_usec)
        else if y = CHR ''t'' then
          (if snd (strtol optarg) = 0 then Inl msgs
           else getopt_loop st' (verbosity, fst (strtol optarg), timeout_usec))
        else if y = CHR ''u'' then
          (if snd (strtol optarg) = 0 then Inl msgs
           else getopt_loop st' (verbosity, timeout_sec, fst (strtol optarg)))
        else Inl msgs) = Inr (v, ts, tu, ops)"
      by (simp add: getopt_loop.simps [of st])
    note ih = 1(1) [OF g [symmetric] refl Some refl _ dd]
      1(2) [OF g [symmetric] refl Some refl _ _ _ dd]
      1(3) [OF g [symmetric] refl Some refl _ _ _ _ dd]
    show ?thesis
      using run ih
      by (subst getopt_loop.simps) (auto simp: ga [THEN conjunct1] split: if_splits)
  qed
qed

text \<open>
  Without its messages a run is the same whatever the verbosity, and with the
  verbosity 0 it has no message.
\<close>

lemma probe_quiet:
  "probe w 0 host port addr timeout_sec timeout_usec
     = (calls (fst (probe w verbosity host port addr timeout_sec timeout_usec)),
        snd (probe w verbosity host port addr timeout_sec timeout_usec))"
  by (cases "sys_connect w (socket_result w) addr";
      cases "select_result w (select_timeout timeout_sec timeout_usec)";
      cases "getsockopt_result w")
     (simp add: probe_def await_def established_def prefixed_def Let_def log_def calls_def)

lemma calls_no_write:
  "Stdout s \<notin> set (calls evs) \<and> Stderr s \<notin> set (calls evs)"
  by (simp add: calls_def)

text \<open>
  Two command lines that \<open>main\<close> accepts, with the same timeout, host and port, the
  second one quiet: the second run is the first without its messages.
\<close>

lemma main_quiet:
  assumes "3 \<le> length argv"
    and "getopt_loop (getopt_start argv) (1, 0, 0)
           = Inr (verbosity, timeout_sec, timeout_usec, host # port # rest)"
    and "snd (strtol port) \<noteq> 0"
    and "3 \<le> length argv'"
    and "getopt_loop (getopt_start argv') (1, 0, 0)
           = Inr (0, timeout_sec, timeout_usec, host # port # rest')"
  shows "main w argv' = (calls (fst (main w argv)), snd (main w argv))"
proof (cases "resolver w host")
  case (Inl h_errno)
  have "\<not> length argv < 3" "\<not> length argv' < 3"
    using assms(1,4) by auto
  then show ?thesis
    using Inl assms(2,5) by (simp add: main_def log_def calls_def)
next
  case (Inr he)
  show ?thesis
    using probe_quiet [of w host port "address he port" timeout_sec timeout_usec verbosity]
    by (simp add: main_probe [OF assms(1,2) Inr assms(3)]
                  main_probe [OF assms(4,5) Inr assms(3)] prefixed_def calls_def)
qed

text \<open>
  Claim C8. Take a command line that \<open>main\<close> accepts: the options are read to the end
  and the operands are a host and a port that starts with a number. Put \<open>-q\<close> anywhere
  in it where \<open>getopt\<close> reads it as an option: after words \<open>pre\<close> that do not hold \<open>--\<close>
  and that the loop reads to their end, so that no option among them waits for its
  value (the whole command line is such a \<open>pre\<close>, and so is the empty one). On every
  system the run with \<open>-q\<close> is then the run without it less its writes to stdout and
  stderr, and it ends in the same way. The same holds of any other command line that
  is read as quiet with the same timeout, host and port, such as one with \<open>-q\<close> in a
  word with other options.
\<close>

theorem quiet_keeps_exit_code:
  assumes "3 \<le> length (prog # pre @ post)"
    and "getopt_loop (getopt_start (prog # pre @ post)) (1, 0, 0)
           = Inr (verbosity, timeout_sec, timeout_usec, host # port # rest)"
    and "snd (strtol port) \<noteq> 0"
    and "''--'' \<notin> set pre"
    and "getopt_loop (getopt_start (prog # pre)) (1, 0, 0) = Inr (v', ts', tu', ops')"
  shows "main w (prog # pre @ ''-q'' # post)
           = (calls (fst (main w (prog # pre @ post))), snd (main w (prog # pre @ post)))
         \<and> snd (main w (prog # pre @ ''-q'' # post)) = snd (main w (prog # pre @ post))
         \<and> (\<forall>s. Stdout s \<notin> set (fst (main w (prog # pre @ ''-q'' # post)))
                \<and> Stderr s \<notin> set (fst (main w (prog # pre @ ''-q'' # post))))
         \<and> (\<forall>argv rest'.
               3 \<le> length argv
               \<and> getopt_loop (getopt_start argv) (1, 0, 0)
                   = Inr (0, timeout_sec, timeout_usec, host # port # rest') \<longrightarrow>
               main w argv
                 = (calls (fst (main w (prog # pre @ post))), snd (main w (prog # pre @ post))))"
proof -
  have start: "getopt_start (prog # ws) = \<lparr>unscanned = ws, nextchar = [], nonopts = []\<rparr>" for ws
    by (simp add: getopt_start_def)
  have behind: "getopt_loop \<lparr>unscanned = pre @ ws, nextchar = [], nonopts = []\<rparr> (1, 0, 0)
                  = getopt_loop \<lparr>unscanned = ws, nextchar = [], nonopts = ops'\<rparr> (v', ts', tu')"
    for ws
    using getopt_loop_append
            [of "\<lparr>unscanned = pre, nextchar = [], nonopts = []\<rparr>" "(1, 0, 0)" v' ts' tu' ops' ws]
      assms(4,5)
    by (simp add: start)
  have plain: "getopt_loop \<lparr>unscanned = post, nextchar = [], nonopts = ops'\<rparr> (v', ts', tu')
                 = Inr (verbosity, timeout_sec, timeout_usec, host # port # rest)"
    using assms(2) behind [of post] by (simp add: start)
  have "getopt_loop \<lparr>unscanned = ''-q'' # post, nextchar = [], nonopts = ops'\<rparr> (v', ts', tu')
          = getopt_loop \<lparr>unscanned = post, nextchar = [], nonopts = ops'\<rparr> (0, ts', tu')"
    by (subst getopt_loop.simps) (simp add: getopt_def next_option_def nonoption_def)
  also have "\<dots> = Inr (0, timeout_sec, timeout_usec, host # port # rest)"
    using getopt_loop_verbosity
            [of "\<lparr>unscanned = post, nextchar = [], nonopts = ops'\<rparr>" "(v', ts', tu')"] plain
    by simp
  finally have quiet: "getopt_loop (getopt_start (prog # pre @ ''-q'' # post)) (1, 0, 0)
                         = Inr (0, timeout_sec, timeout_usec, host # port # rest)"
    using behind [of "''-q'' # post"] by (simp add: start)
  have len: "3 \<le> length (prog # pre @ ''-q'' # post)"
    using assms(1) by simp
  have run: "main w (prog # pre @ ''-q'' # post)
           = (calls (fst (main w (prog # pre @ post))), snd (main w (prog # pre @ post)))"
    using assms(1-3) len quiet by (rule main_quiet)
  have silent: "\<forall>s. Stdout s \<notin> set (fst (main w (prog # pre @ ''-q'' # post)))
                  \<and> Stderr s \<notin> set (fst (main w (prog # pre @ ''-q'' # post)))"
    unfolding run using calls_no_write by simp
  have others: "main w argv
                 = (calls (fst (main w (prog # pre @ post))), snd (main w (prog # pre @ post)))"
    if "3 \<le> length argv"
      and "getopt_loop (getopt_start argv) (1, 0, 0)
             = Inr (0, timeout_sec, timeout_usec, host # port # rest')"
    for argv rest'
    using assms(1-3) that by (rule main_quiet)
  from run silent others show ?thesis
    by auto
qed

text \<open>
  \<open>tcping localhost 80\<close> on a system where the connect is refused, against
  \<open>tcping -q localhost 80\<close>, \<open>tcping localhost -q 80\<close>, \<open>tcping localhost 80 -q\<close> and,
  with a timeout, \<open>tcping -t 5 localhost 80\<close> against \<open>tcping -qt5 localhost 80\<close>: the
  exit code is 1 in all of them, and only the runs without \<open>-q\<close> write a line.
\<close>

theorem quiet_keeps_exit_code_witness:
  "main (system 3 (- 1, 115) (1, False, True) (0, 111, 0)) [''tcping'', ''localhost'', ''80'']
     = ([Gethostbyname ''localhost'', Socket 3, Fcntl 3,
         Connect 3 \<lparr>sin_family = 2, sin_port = 80, sin_addr = [127, 0, 0, 1]\<rparr>,
         Select 4 None, Getsockopt 3,
         Stdout (''localhost port 80 closed.'' @ newline), Close 3],
        Exit 1)
   \<and> main (system 3 (- 1, 115) (1, False, True) (0, 111, 0))
         [''tcping'', ''-q'', ''localhost'', ''80'']
       = ([Gethostbyname ''localhost'', Socket 3, Fcntl 3,
           Connect 3 \<lparr>sin_family = 2, sin_port = 80, sin_addr = [127, 0, 0, 1]\<rparr>,
           Select 4 None, Getsockopt 3, Close 3],
          Exit 1)
   \<and> main (system 3 (- 1, 115) (1, False, True) (0, 111, 0))
         [''tcping'', ''localhost'', ''-q'', ''80'']
       = ([Gethostbyname ''localhost'', Socket 3, Fcntl 3,
           Connect 3 \<lparr>sin_family = 2, sin_port = 80, sin_addr = [127, 0, 0, 1]\<rparr>,
           Select 4 None, Getsockopt 3, Close 3],
          Exit 1)
   \<and> main (system 3 (- 1, 115) (1, False, True) (0, 111, 0))
         [''tcping'', ''localhost'', ''80'', ''-q'']
       = ([Gethostbyname ''localhost'', Socket 3, Fcntl 3,
           Connect 3 \<lparr>sin_family = 2, sin_port = 80, sin_addr = [127, 0, 0, 1]\<rparr>,
           Select 4 None, Getsockopt 3, Close 3],
          Exit 1)
   \<and> getopt_loop (getopt_start [''tcping'', ''-t'', ''5'', ''localhost'', ''80'']) (1, 0, 0)
       = Inr (1, 5, 0, [''localhost'', ''80''])
   \<and> getopt_loop (getopt_start [''tcping'', ''-qt5'', ''localhost'', ''80'']) (1, 0, 0)
       = Inr (0, 5, 0, [''localhost'', ''80''])
   \<and> main (system 3 (- 1, 115) (1, False, True) (0, 111, 0))
         [''tcping'', ''-t'', ''5'', ''localhost'', ''80'']
       = ([Gethostbyname ''localhost'', Socket 3, Fcntl 3,
           Connect 3 \<lparr>sin_family = 2, sin_port = 80, sin_addr = [127, 0, 0, 1]\<rparr>,
           Select 4 (Some \<lparr>tv_sec = 5, tv_usec = 0\<rparr>), Getsockopt 3,
           Stdout (''localhost port 80 closed.'' @ newline), Close 3],
          Exit 1)
   \<and> main (system 3 (- 1, 115) (1, False, True) (0, 111, 0))
         [''tcping'', ''-qt5'', ''localhost'', ''80'']
       = ([Gethostbyname ''localhost'', Socket 3, Fcntl 3,
           Connect 3 \<lparr>sin_family = 2, sin_port = 80, sin_addr = [127, 0, 0, 1]\<rparr>,
           Select 4 (Some \<lparr>tv_sec = 5, tv_usec = 0\<rparr>), Getsockopt 3, Close 3],
          Exit 1)"
proof -
  let ?w = "system 3 (- 1, 115) (1, False, True) (0, 111, 0)"
  have port: "snd (strtol ''80'') \<noteq> 0"
    by code_simp
  have n: "strtol ''5'' = (5, 1)"
    by code_simp
  have plain: "main ?w [''tcping'', ''localhost'', ''80'']
       = ([Gethostbyname ''localhost'', Socket 3, Fcntl 3,
           Connect 3 \<lparr>sin_family = 2, sin_port = 80, sin_addr = [127, 0, 0, 1]\<rparr>,
           Select 4 None, Getsockopt 3,
           Stdout (''localhost port 80 closed.'' @ newline), Close 3],
          Exit 1)"
    by (simp add: run_defs)
  have timed: "main ?w [''tcping'', ''-t'', ''5'', ''localhost'', ''80'']
       = ([Gethostbyname ''localhost'', Socket 3, Fcntl 3,
           Connect 3 \<lparr>sin_family = 2, sin_port = 80, sin_addr = [127, 0, 0, 1]\<rparr>,
           Select 4 (Some \<lparr>tv_sec = 5, tv_usec = 0\<rparr>), Getsockopt 3,
           Stdout (''localhost port 80 closed.'' @ newline), Close 3],
          Exit 1)"
    by (simp add: run_defs)
  have len: "3 \<le> length (''tcping'' # [] @ [''localhost'', ''80''])"
    "3 \<le> length (''tcping'' # [''localhost''] @ [''80''])"
    "3 \<le> length (''tcping'' # [''localhost'', ''80''] @ [])"
    "3 \<le> length (''tcping'' # [] @ [''-t'', ''5'', ''localhost'', ''80''])"
    by simp_all
  have opts: "getopt_loop (getopt_start (''tcping'' # [] @ [''localhost'', ''80''])) (1, 0, 0)
                = Inr (1, 0, 0, ''localhost'' # ''80'' # [])"
    "getopt_loop (getopt_start (''tcping'' # [''localhost''] @ [''80''])) (1, 0, 0)
                = Inr (1, 0, 0, ''localhost'' # ''80'' # [])"
    "getopt_loop (getopt_start (''tcping'' # [''localhost'', ''80''] @ [])) (1, 0, 0)
                = Inr (1, 0, 0, ''localhost'' # ''80'' # [])"
    "getopt_loop (getopt_start (''tcping'' # [] @ [''-t'', ''5'', ''localhost'', ''80''])) (1, 0, 0)
                = Inr (1, 5, 0, ''localhost'' # ''80'' # [])"
    by (simp_all add: parse_defs n)
  have pre: "''--'' \<notin> set []" "''--'' \<notin> set [''localhost'']"
    "''--'' \<notin> set [''localhost'', ''80'']"
    by simp_all
  have before: "getopt_loop (getopt_start (''tcping'' # [])) (1, 0, 0) = Inr (1, 0, 0, [])"
    "getopt_loop (getopt_start (''tcping'' # [''localhost''])) (1, 0, 0)
       = Inr (1, 0, 0, [''localhost''])"
    "getopt_loop (getopt_start (''tcping'' # [''localhost'', ''80''])) (1, 0, 0)
       = Inr (1, 0, 0, [''localhost'', ''80''])"
    by (simp_all add: parse_defs)
  have bundled: "3 \<le> length [''tcping'', ''-qt5'', ''localhost'', ''80'']
     \<and> getopt_loop (getopt_start [''tcping'', ''-qt5'', ''localhost'', ''80'']) (1, 0, 0)
         = Inr (0, 5, 0, ''localhost'' # ''80'' # [])"
    by (simp add: parse_defs n)
  have 1: "main ?w [''tcping'', ''-q'', ''localhost'', ''80'']
       = ([Gethostbyname ''localhost'', Socket 3, Fcntl 3,
           Connect 3 \<lparr>sin_family = 2, sin_port = 80, sin_addr = [127, 0, 0, 1]\<rparr>,
           Select 4 None, Getsockopt 3, Close 3],
          Exit 1)"
    using quiet_keeps_exit_code [OF len(1) opts(1) port pre(1) before(1), of ?w, THEN conjunct1]
    by (simp add: plain calls_def)
  have 2: "main ?w [''tcping'', ''localhost'', ''-q'', ''80'']
       = ([Gethostbyname ''localhost'', Socket 3, Fcntl 3,
           Connect 3 \<lparr>sin_family = 2, sin_port = 80, sin_addr = [127, 0, 0, 1]\<rparr>,
           Select 4 None, Getsockopt 3, Close 3],
          Exit 1)"
    using quiet_keeps_exit_code [OF len(2) opts(2) port pre(2) before(2), of ?w, THEN conjunct1]
    by (simp add: plain calls_def)
  have 3: "main ?w [''tcping'', ''localhost'', ''80'', ''-q'']
       = ([Gethostbyname ''localhost'', Socket 3, Fcntl 3,
           Connect 3 \<lparr>sin_family = 2, sin_port = 80, sin_addr = [127, 0, 0, 1]\<rparr>,
           Select 4 None, Getsockopt 3, Close 3],
          Exit 1)"
    using quiet_keeps_exit_code [OF len(3) opts(3) port pre(3) before(3), of ?w, THEN conjunct1]
    by (simp add: plain calls_def)
  have 4: "main ?w [''tcping'', ''-qt5'', ''localhost'', ''80'']
       = ([Gethostbyname ''localhost'', Socket 3, Fcntl 3,
           Connect 3 \<lparr>sin_family = 2, sin_port = 80, sin_addr = [127, 0, 0, 1]\<rparr>,
           Select 4 (Some \<lparr>tv_sec = 5, tv_usec = 0\<rparr>), Getsockopt 3, Close 3],
          Exit 1)"
    using quiet_keeps_exit_code [OF len(4) opts(4) port pre(1) before(1), of ?w,
            THEN conjunct2, THEN conjunct2, THEN conjunct2, rule_format, OF bundled]
    by (simp add: timed calls_def)
  from plain 1 2 3 opts(4) bundled timed 4 show ?thesis
    by simp
qed

subsection \<open>The usage message\<close>

text \<open>\<open>strtol\<close> reads no number in the word of the option \<open>-t\<close> or \<open>-u\<close>.\<close>

lemma strtol_option_word:
  assumes "c = CHR ''t'' \<or> c = CHR ''u''"
  shows "snd (strtol (CHR ''-'' # c # x)) = 0"
  using assms by (auto simp: strtol_def isspace_def isdigit_def Let_def)

lemma optlookup_qtu:
  "optlookup ''qt:u:'' d
     = (if d = CHR ''q'' then Some False
        else if d = CHR ''t'' \<or> d = CHR ''u'' then Some True else None)"
  by auto

lemma getopt_msgs:
  assumes "getopt os st = ((r, optarg, msgs), st')"
  shows "msgs = [] \<or> (\<exists>d. msgs = [Getopt_error d])"
  using assms
  by (auto simp: getopt_def next_option_def Let_def
           split: list.splits option.splits bool.splits if_splits)

text \<open>
  The words \<open>bad\<close> are an option \<open>-t\<close> or \<open>-u\<close> with a value \<open>x\<close> in which \<open>strtol\<close>
  reads no number, the value in the next word or in the same one. One call of
  \<open>getopt\<close> before these words, with \<open>--\<close> not among the words \<open>pre\<close> still to read
  before them, returns an option other than \<open>q\<close>, \<open>t\<close> and \<open>u\<close>, or \<open>t\<close> or \<open>u\<close> with a
  value that is no number, or leaves \<open>bad\<close> to read, again with no \<open>--\<close> before it.
\<close>

lemma next_option_before_bad:
  assumes "''--'' \<notin> set pre"
    and "c = CHR ''t'' \<or> c = CHR ''u''"
    and "bad = [[CHR ''-'', c], x] \<or> x \<noteq> [] \<and> bad = [CHR ''-'' # c # x]"
    and "next_option ''qt:u:'' d ds (pre @ bad @ post) passed = ((r, optarg, msgs), st')"
  shows "\<exists>y. r = Some y
           \<and> (y \<noteq> CHR ''q'' \<and> y \<noteq> CHR ''t'' \<and> y \<noteq> CHR ''u''
              \<or> (y = CHR ''t'' \<or> y = CHR ''u'') \<and> snd (strtol optarg) = 0
              \<or> (\<exists>pre'. ''--'' \<notin> set pre' \<and> unscanned st' = pre' @ bad @ post))"
proof (cases "(d = CHR ''t'' \<or> d = CHR ''u'') \<and> ds = []")
  case False
  then have "r = Some (CHR ''?'') \<or> unscanned st' = pre @ bad @ post \<and> r = Some d"
    using assms(4) by (auto simp: next_option_def optlookup_qtu split: if_splits)
  with assms(1) show ?thesis
    by auto
next
  case True
  show ?thesis
  proof (cases pre)
    case Nil
    from assms(3) obtain w ws where w: "bad @ post = (CHR ''-'' # c # w) # ws"
      by auto
    from True Nil assms(4) have "r = Some d" "optarg = CHR ''-'' # c # w"
      by (auto simp: next_option_def optlookup_qtu w)
    with True strtol_option_word [OF assms(2), of w] show ?thesis
      by auto
  next
    case (Cons p pre')
    from True Cons assms(4) have "r = Some d" "unscanned st' = pre' @ bad @ post"
      by (auto simp: next_option_def optlookup_qtu)
    moreover have "''--'' \<notin> set pre'"
      using assms(1) Cons by simp
    ultimately show ?thesis
      by auto
  qed
qed

lemma getopt_before_bad:
  assumes "''--'' \<notin> set pre"
    and "c = CHR ''t'' \<or> c = CHR ''u''"
    and "snd (strtol x) = 0"
    and "bad = [[CHR ''-'', c], x] \<or> x \<noteq> [] \<and> bad = [CHR ''-'' # c # x]"
    and "unscanned st = pre @ bad @ post"
    and "getopt ''qt:u:'' st = ((r, optarg, msgs), st')"
  shows "\<exists>y. r = Some y
           \<and> (y \<noteq> CHR ''q'' \<and> y \<noteq> CHR ''t'' \<and> y \<noteq> CHR ''u''
              \<or> (y = CHR ''t'' \<or> y = CHR ''u'') \<and> snd (strtol optarg) = 0
              \<or> (\<exists>pre'. ''--'' \<notin> set pre' \<and> unscanned st' = pre' @ bad @ post))"
proof (cases "nextchar st")
  case (Cons d ds)
  with assms(5,6) have
    "next_option ''qt:u:'' d ds (pre @ bad @ post) (nonopts st) = ((r, optarg, msgs), st')"
    by (simp add: getopt_def)
  from next_option_before_bad [OF assms(1,2,4) this] show ?thesis .
next
  case Nil
  show ?thesis
  proof (cases "\<forall>a\<in>set pre. nonoption a")
    case True
    from assms(2,4) have opt: "\<not> nonoption (hd bad)" "bad \<noteq> []"
      by (auto simp: nonoption_def)
    then obtain b bad' where bad: "bad = b # bad'" "\<not> nonoption b"
      by (cases bad) simp_all
    have d: "dropWhile nonoption (unscanned st) = bad @ post"
      using True bad by (simp add: assms(5))
    have "r = Some c \<and> optarg = x"
      using assms(2,4,6) Nil
      by (auto simp: getopt_def Let_def d next_option_def optlookup_qtu)
    with assms(2,3) show ?thesis
      by auto
  next
    case False
    then obtain a pre2 where a: "dropWhile nonoption pre = a # pre2"
      by (cases "dropWhile nonoption pre") (auto simp: dropWhile_eq_Nil_conv)
    then have opt: "\<not> nonoption a" and split: "pre = takeWhile nonoption pre @ a # pre2"
      by (simp_all add: dropWhile_eq_Cons_conv)
    have mem: "a \<in> set pre" and sub: "set pre2 \<subseteq> set pre"
      by (subst split, simp) (subst split, auto)
    from opt obtain e es where word: "a = CHR ''-'' # e # es"
      by (auto simp: nonoption_def neq_Nil_conv split: list.splits)
    have dd: "a \<noteq> ''--''" "''--'' \<notin> set pre2"
      using assms(1) mem sub by auto
    have d: "dropWhile nonoption (unscanned st) = a # pre2 @ bad @ post"
      using dropWhile_append1 [of a pre nonoption "bad @ post"] mem opt a
      by (simp add: assms(5))
    have "next_option ''qt:u:'' e es (pre2 @ bad @ post)
            (nonopts st @ takeWhile nonoption (unscanned st)) = ((r, optarg, msgs), st')"
      using assms(6) Nil dd(1) by (auto simp: getopt_def Let_def d word)
    from next_option_before_bad [OF dd(2) assms(2,4) this] show ?thesis .
  qed
qed

text \<open>
  So the loop ends in \<open>usage\<close>: at the bad value, or at an option that \<open>getopt\<close>
  rejects before it.
\<close>

lemma getopt_loop_bad_value:
  assumes "''--'' \<notin> set pre"
    and "unscanned st = pre @ bad @ post"
    and "c = CHR ''t'' \<or> c = CHR ''u''"
    and "snd (strtol x) = 0"
    and "bad = [[CHR ''-'', c], x] \<or> x \<noteq> [] \<and> bad = [CHR ''-'' # c # x]"
  shows "getopt_loop st vars = Inl [] \<or> (\<exists>d. getopt_loop st vars = Inl [Getopt_error d])"
  using assms(1,2)
proof (induction st vars arbitrary: pre rule: getopt_loop.induct)
  case (1 st verbosity timeout_sec timeout_usec)
  obtain r optarg msgs st' where g: "getopt ''qt:u:'' st = ((r, optarg, msgs), st')"
    by (metis prod.exhaust)
  note m = getopt_msgs [OF g]
  from getopt_before_bad [OF 1(4) assms(3-5) 1(5) g] obtain y where
    r: "r = Some y" and
    y: "y \<noteq> CHR ''q'' \<and> y \<noteq> CHR ''t'' \<and> y \<noteq> CHR ''u''
        \<or> (y = CHR ''t'' \<or> y = CHR ''u'') \<and> snd (strtol optarg) = 0
        \<or> (\<exists>pre'. ''--'' \<notin> set pre' \<and> unscanned st' = pre' @ bad @ post)"
    by blast
  have run: "getopt_loop st (verbosity, timeout_sec, timeout_usec)
      = (if y = CHR ''q'' then getopt_loop st' (0, timeout_sec, timeout_usec)
         else if y = CHR ''t'' then
           (if snd (strtol optarg) = 0 then Inl msgs
            else getopt_loop st' (verbosity, fst (strtol optarg), timeout_usec))
         else if y = CHR ''u'' then
           (if snd (strtol optarg) = 0 then Inl msgs
            else getopt_loop st' (verbosity, timeout_sec, fst (strtol optarg)))
         else Inl msgs)"
    by (simp add: getopt_loop.simps [of st] g r)
  from y consider
    (stop) "y \<noteq> CHR ''q''" "y \<noteq> CHR ''t''" "y \<noteq> CHR ''u''"
    | (bad) "y = CHR ''t'' \<or> y = CHR ''u''" "snd (strtol optarg) = 0"
    | (go) pre' where "''--'' \<notin> set pre'" "unscanned st' = pre' @ bad @ post"
    by auto
  then show ?case
  proof cases
    case stop
    with run m show ?thesis
      by auto
  next
    case bad
    with run m show ?thesis
      by auto
  next
    case go
    note ih = 1(1) [OF g [symmetric] refl r refl _ go]
      1(2) [OF g [symmetric] refl r refl _ _ _ go]
      1(3) [OF g [symmetric] refl r refl _ _ _ _ go]
    show ?thesis
    proof (cases "y = CHR ''q''")
      case True
      with run ih(1) show ?thesis
        by simp
    next
      case q: False
      show ?thesis
      proof (cases "y = CHR ''t''")
        case True
        with run ih(2) [OF q] m show ?thesis
          by (cases "snd (strtol optarg) = 0") auto
      next
        case t: False
        show ?thesis
        proof (cases "y = CHR ''u''")
          case True
          with run ih(3) [OF q t] m show ?thesis
            by (cases "snd (strtol optarg) = 0") auto
        next
          case False
          with q t run m show ?thesis
            by auto
        qed
      qed
    qed
  qed
qed

text \<open>
  Claim C4, amended. With fewer than two arguments in all (\<open>argc < 3\<close>) the run is the
  usage message on stderr and the exit code -1 (status 255). With an option \<open>-t\<close> or
  \<open>-u\<close> whose value does not start with a number, wherever it stands in the command
  line before any \<open>--\<close>, the value in the next word or in the same one, the run is the
  usage message and the exit code -1, after one diagnostic of \<open>getopt\<close> if an earlier
  option is rejected; when the words before it are read to their end there is none.
  In these runs no host is looked up and no socket is created. When the options are
  read to the end and the port operand is missing or does not start with a number,
  the host is looked up first; if that succeeds, the run is the lookup, the usage
  message and the exit code -1, with no socket created.
\<close>

theorem usage_on_bad_arguments:
  "(length argv < 3 \<longrightarrow> main w argv = (usage (argv0 argv), Exit (- 1)))
   \<and> ((c = CHR ''t'' \<or> c = CHR ''u'') \<and> snd (strtol x) = 0 \<and> ''--'' \<notin> set pre
      \<and> (bad = [[CHR ''-'', c], x] \<or> x \<noteq> [] \<and> bad = [CHR ''-'' # c # x]) \<longrightarrow>
        (main w (prog # pre @ bad @ post) = (usage prog, Exit (- 1))
         \<or> (\<exists>d. main w (prog # pre @ bad @ post) = (Getopt_error d # usage prog, Exit (- 1))))
        \<and> (\<forall>v ts tu ops.
              getopt_loop (getopt_start (prog # pre)) (1, 0, 0) = Inr (v, ts, tu, ops) \<longrightarrow>
              main w (prog # pre @ bad @ post) = (usage prog, Exit (- 1))))
   \<and> (3 \<le> length argv
      \<and> getopt_loop (getopt_start argv) (1, 0, 0)
          = Inr (verbosity, timeout_sec, timeout_usec, operands)
      \<and> (operands = [host] \<or> operands = host # port # rest \<and> snd (strtol port) = 0)
      \<and> resolver w host = Inr he \<longrightarrow>
        main w argv = (Gethostbyname host # usage (argv0 argv), Exit (- 1)))
   \<and> exit_status (Exit (- 1)) = Some 255"
proof -
  have start: "getopt_start (prog # ws) = \<lparr>unscanned = ws, nextchar = [], nonopts = []\<rparr>" for ws
    by (simp add: getopt_start_def)
  have options: "(main w (prog # pre @ bad @ post) = (usage prog, Exit (- 1))
         \<or> (\<exists>d. main w (prog # pre @ bad @ post) = (Getopt_error d # usage prog, Exit (- 1))))
        \<and> (\<forall>v ts tu ops.
              getopt_loop (getopt_start (prog # pre)) (1, 0, 0) = Inr (v, ts, tu, ops) \<longrightarrow>
              main w (prog # pre @ bad @ post) = (usage prog, Exit (- 1)))"
    if c: "c = CHR ''t'' \<or> c = CHR ''u''" and x: "snd (strtol x) = 0"
      and pre: "''--'' \<notin> set pre"
      and bad: "bad = [[CHR ''-'', c], x] \<or> x \<noteq> [] \<and> bad = [CHR ''-'' # c # x]"
  proof -
    have loop: "getopt_loop (getopt_start (prog # pre @ bad @ post)) (1, 0, 0) = Inl []
                \<or> (\<exists>d. getopt_loop (getopt_start (prog # pre @ bad @ post)) (1, 0, 0)
                          = Inl [Getopt_error d])"
      using getopt_loop_bad_value
              [of pre "\<lparr>unscanned = pre @ bad @ post, nextchar = [], nonopts = []\<rparr>" bad post c x
                  "(1, 0, 0)"]
        pre c x bad
      by (simp add: start)
    have short: "main w (prog # pre @ bad @ post) = (usage prog, Exit (- 1))"
      if "length (prog # pre @ bad @ post) < 3"
      using that by (simp add: main_def argv0_def)
    have run: "main w (prog # pre @ bad @ post) = (msgs @ usage prog, Exit (- 1))"
      if "\<not> length (prog # pre @ bad @ post) < 3"
        and "getopt_loop (getopt_start (prog # pre @ bad @ post)) (1, 0, 0) = Inl msgs" for msgs
      using that by (simp add: main_def argv0_def)
    have first: "main w (prog # pre @ bad @ post) = (usage prog, Exit (- 1))
         \<or> (\<exists>d. main w (prog # pre @ bad @ post) = (Getopt_error d # usage prog, Exit (- 1)))"
    proof (cases "length (prog # pre @ bad @ post) < 3")
      case True
      then show ?thesis
        using short by simp
    next
      case False
      from loop show ?thesis
      proof
        assume "getopt_loop (getopt_start (prog # pre @ bad @ post)) (1, 0, 0) = Inl []"
        from run [OF False this] show ?thesis
          by simp
      next
        assume "\<exists>d. getopt_loop (getopt_start (prog # pre @ bad @ post)) (1, 0, 0)
                      = Inl [Getopt_error d]"
        then obtain d where
          "getopt_loop (getopt_start (prog # pre @ bad @ post)) (1, 0, 0) = Inl [Getopt_error d]"
          by blast
        from run [OF False this] show ?thesis
          by simp
      qed
    qed
    have second: "main w (prog # pre @ bad @ post) = (usage prog, Exit (- 1))"
      if before: "getopt_loop (getopt_start (prog # pre)) (1, 0, 0) = Inr (v, ts, tu, ops)"
      for v ts tu ops
    proof -
      have "getopt_loop (getopt_start (prog # pre @ bad @ post)) (1, 0, 0)
              = getopt_loop \<lparr>unscanned = bad @ post, nextchar = [], nonopts = ops\<rparr> (v, ts, tu)"
        using getopt_loop_append
                [of "\<lparr>unscanned = pre, nextchar = [], nonopts = []\<rparr>" "(1, 0, 0)" v ts tu ops
                    "bad @ post"]
          pre before
        by (simp add: start)
      also have "\<dots> = Inl []"
        using c x bad
        by (subst getopt_loop.simps)
           (auto simp: getopt_def next_option_def nonoption_def Let_def)
      finally have "getopt_loop (getopt_start (prog # pre @ bad @ post)) (1, 0, 0) = Inl []" .
      then show ?thesis
        using short run [of "[]"] by (cases "length (prog # pre @ bad @ post) < 3") simp_all
    qed
    from first second show ?thesis
      by blast
  qed
  have few: "main w argv = (usage (argv0 argv), Exit (- 1))" if "length argv < 3"
    using that by (simp add: main_def)
  have port: "main w argv = (Gethostbyname host # usage (argv0 argv), Exit (- 1))"
    if "3 \<le> length argv"
      and "getopt_loop (getopt_start argv) (1, 0, 0)
             = Inr (verbosity, timeout_sec, timeout_usec, operands)"
      and "operands = [host] \<or> operands = host # port # rest \<and> snd (strtol port) = 0"
      and "resolver w host = Inr he"
    using that by (auto simp add: main_def)
  have status: "exit_status (Exit (- 1)) = Some 255"
    by (simp add: exit_status_def)
  from few options port status show ?thesis
    by blast
qed

text \<open>
  \<open>tcping localhost\<close>; \<open>tcping localhost 80 -t soon\<close> and \<open>tcping -q -unow localhost 80\<close>,
  where the bad value comes after other words; \<open>tcping -x -t soon localhost 80\<close>, where
  \<open>getopt\<close> rejects \<open>-x\<close> first; \<open>tcping localhost http\<close> and \<open>tcping -q localhost\<close>, where
  the host is looked up before the usage message.
\<close>

theorem usage_on_bad_arguments_witness:
  "length [''tcping'', ''localhost''] < 3
   \<and> main (system 3 (0, 0) (0, False, False) (0, 0, 0)) [''tcping'', ''localhost'']
       = (usage ''tcping'', Exit (- 1))
   \<and> snd (strtol ''soon'') = 0 \<and> snd (strtol ''now'') = 0
   \<and> getopt_loop (getopt_start [''tcping'', ''localhost'', ''80'']) (1, 0, 0)
       = Inr (1, 0, 0, [''localhost'', ''80''])
   \<and> main (system 3 (0, 0) (0, False, False) (0, 0, 0))
         [''tcping'', ''localhost'', ''80'', ''-t'', ''soon'']
       = (usage ''tcping'', Exit (- 1))
   \<and> getopt_loop (getopt_start [''tcping'', ''-q'']) (1, 0, 0) = Inr (0, 0, 0, [])
   \<and> main (system 3 (0, 0) (0, False, False) (0, 0, 0))
         [''tcping'', ''-q'', ''-unow'', ''localhost'', ''80'']
       = (usage ''tcping'', Exit (- 1))
   \<and> (main (system 3 (0, 0) (0, False, False) (0, 0, 0))
         [''tcping'', ''-x'', ''-t'', ''soon'', ''localhost'', ''80'']
       = (usage ''tcping'', Exit (- 1))
      \<or> (\<exists>d. main (system 3 (0, 0) (0, False, False) (0, 0, 0))
                [''tcping'', ''-x'', ''-t'', ''soon'', ''localhost'', ''80'']
              = (Getopt_error d # usage ''tcping'', Exit (- 1))))
   \<and> main (system 3 (0, 0) (0, False, False) (0, 0, 0))
         [''tcping'', ''-x'', ''-t'', ''soon'', ''localhost'', ''80'']
       = (Getopt_error CHR ''x'' # usage ''tcping'', Exit (- 1))
   \<and> snd (strtol ''http'') = 0
   \<and> getopt_loop (getopt_start [''tcping'', ''localhost'', ''http'']) (1, 0, 0)
       = Inr (1, 0, 0, [''localhost'', ''http''])
   \<and> main (system 3 (0, 0) (0, False, False) (0, 0, 0)) [''tcping'', ''localhost'', ''http'']
       = (Gethostbyname ''localhost'' # usage ''tcping'', Exit (- 1))
   \<and> getopt_loop (getopt_start [''tcping'', ''-q'', ''localhost'']) (1, 0, 0)
       = Inr (0, 0, 0, [''localhost''])
   \<and> main (system 3 (0, 0) (0, False, False) (0, 0, 0)) [''tcping'', ''-q'', ''localhost'']
       = (Gethostbyname ''localhost'' # usage ''tcping'', Exit (- 1))"
proof -
  let ?w = "system 3 (0, 0) (0, False, False) (0, 0, 0)"
  have few: "length [''tcping'', ''localhost''] < 3"
    by simp
  have soon: "snd (strtol ''soon'') = 0" and now: "snd (strtol ''now'') = 0"
    and http: "snd (strtol ''http'') = 0"
    by code_simp+
  have host: "resolver ?w ''localhost'' = Inr localhost"
    by (simp add: system_def)
  have a0: "argv0 (''tcping'' # args) = ''tcping''" for args
    by (simp add: argv0_def)
  have 1: "main ?w [''tcping'', ''localhost''] = (usage ''tcping'', Exit (- 1))"
    using usage_on_bad_arguments [of "[''tcping'', ''localhost'']" ?w, THEN conjunct1] few
    by (simp add: a0)
  have t: "(CHR ''t'' = CHR ''t'' \<or> CHR ''t'' = CHR ''u'') \<and> snd (strtol ''soon'') = 0
     \<and> ''--'' \<notin> set [''localhost'', ''80'']
     \<and> ([[CHR ''-'', CHR ''t''], ''soon''] = [[CHR ''-'', CHR ''t''], ''soon'']
        \<or> ''soon'' \<noteq> [] \<and> [[CHR ''-'', CHR ''t''], ''soon''] = [CHR ''-'' # CHR ''t'' # ''soon''])"
    using soon by simp
  have operands: "getopt_loop (getopt_start (''tcping'' # [''localhost'', ''80''])) (1, 0, 0)
            = Inr (1, 0, 0, [''localhost'', ''80''])"
    by (simp add: parse_defs)
  have 2: "main ?w [''tcping'', ''localhost'', ''80'', ''-t'', ''soon'']
             = (usage ''tcping'', Exit (- 1))"
    using usage_on_bad_arguments
            [of _ ?w "CHR ''t''" "''soon''" "[''localhost'', ''80'']"
                "[[CHR ''-'', CHR ''t''], ''soon'']" "''tcping''" "[]",
             THEN conjunct2, THEN conjunct1, rule_format, OF t, THEN conjunct2, rule_format,
             OF operands]
    by simp
  have u: "(CHR ''u'' = CHR ''t'' \<or> CHR ''u'' = CHR ''u'') \<and> snd (strtol ''now'') = 0
     \<and> ''--'' \<notin> set [''-q'']
     \<and> ([CHR ''-'' # CHR ''u'' # ''now''] = [[CHR ''-'', CHR ''u''], ''now'']
        \<or> ''now'' \<noteq> [] \<and> [CHR ''-'' # CHR ''u'' # ''now''] = [CHR ''-'' # CHR ''u'' # ''now''])"
    using now by simp
  have quiet: "getopt_loop (getopt_start (''tcping'' # [''-q''])) (1, 0, 0) = Inr (0, 0, 0, [])"
    by (simp add: parse_defs)
  have 3: "main ?w [''tcping'', ''-q'', ''-unow'', ''localhost'', ''80'']
             = (usage ''tcping'', Exit (- 1))"
    using usage_on_bad_arguments
            [of _ ?w "CHR ''u''" "''now''" "[''-q'']"
                "[CHR ''-'' # CHR ''u'' # ''now'']" "''tcping''" "[''localhost'', ''80'']",
             THEN conjunct2, THEN conjunct1, rule_format, OF u, THEN conjunct2, rule_format,
             OF quiet]
    by simp
  have x: "(CHR ''t'' = CHR ''t'' \<or> CHR ''t'' = CHR ''u'') \<and> snd (strtol ''soon'') = 0
     \<and> ''--'' \<notin> set [''-x'']
     \<and> ([[CHR ''-'', CHR ''t''], ''soon''] = [[CHR ''-'', CHR ''t''], ''soon'']
        \<or> ''soon'' \<noteq> [] \<and> [[CHR ''-'', CHR ''t''], ''soon''] = [CHR ''-'' # CHR ''t'' # ''soon''])"
    using soon by simp
  have 4: "main ?w [''tcping'', ''-x'', ''-t'', ''soon'', ''localhost'', ''80'']
             = (usage ''tcping'', Exit (- 1))
           \<or> (\<exists>d. main ?w [''tcping'', ''-x'', ''-t'', ''soon'', ''localhost'', ''80'']
                    = (Getopt_error d # usage ''tcping'', Exit (- 1)))"
    using usage_on_bad_arguments
            [of _ ?w "CHR ''t''" "''soon''" "[''-x'']"
                "[[CHR ''-'', CHR ''t''], ''soon'']" "''tcping''" "[''localhost'', ''80'']",
             THEN conjunct2, THEN conjunct1, rule_format, OF x, THEN conjunct1]
    by simp
  have 5: "main ?w [''tcping'', ''-x'', ''-t'', ''soon'', ''localhost'', ''80'']
             = (Getopt_error CHR ''x'' # usage ''tcping'', Exit (- 1))"
    by (simp add: main_def parse_defs argv0_def)
  have p: "3 \<le> length [''tcping'', ''localhost'', ''http'']
     \<and> getopt_loop (getopt_start [''tcping'', ''localhost'', ''http'']) (1, 0, 0)
         = Inr (1, 0, 0, [''localhost'', ''http''])
     \<and> ([''localhost'', ''http''] = [''localhost'']
        \<or> [''localhost'', ''http''] = ''localhost'' # ''http'' # [] \<and> snd (strtol ''http'') = 0)
     \<and> resolver ?w ''localhost'' = Inr localhost"
    using http host by (simp add: parse_defs)
  have q: "3 \<le> length [''tcping'', ''-q'', ''localhost'']
     \<and> getopt_loop (getopt_start [''tcping'', ''-q'', ''localhost'']) (1, 0, 0)
         = Inr (0, 0, 0, [''localhost''])
     \<and> ([''localhost''] = [''localhost'']
        \<or> [''localhost''] = ''localhost'' # port # rest \<and> snd (strtol port) = 0)
     \<and> resolver ?w ''localhost'' = Inr localhost" for port rest
    using host by (simp add: parse_defs)
  have 6: "main ?w [''tcping'', ''localhost'', ''http'']
             = (Gethostbyname ''localhost'' # usage ''tcping'', Exit (- 1))"
    using usage_on_bad_arguments
            [of "[''tcping'', ''localhost'', ''http'']" ?w,
             THEN conjunct2, THEN conjunct2, THEN conjunct1, rule_format, OF p]
    by (simp add: a0)
  have 7: "main ?w [''tcping'', ''-q'', ''localhost'']
             = (Gethostbyname ''localhost'' # usage ''tcping'', Exit (- 1))"
    using usage_on_bad_arguments
            [of "[''tcping'', ''-q'', ''localhost'']" ?w,
             THEN conjunct2, THEN conjunct2, THEN conjunct1, rule_format, OF q]
    by (simp add: a0)
  from few soon now http operands quiet p q 1 2 3 4 5 6 7 show ?thesis
    by simp
qed

text \<open>
  The claim as stated fails for \<open>tcping localhost http\<close>: the port is not a number and
  the host is looked up all the same; when the lookup fails, as for
  \<open>tcping nowhere.invalid http\<close>, the usage message is not written at all.
\<close>

theorem usage_on_bad_arguments_counterexample:
  "snd (strtol ''http'') = 0
   \<and> Gethostbyname ''localhost''
       \<in> set (fst (main (system 3 (0, 0) (0, False, False) (0, 0, 0))
                     [''tcping'', ''localhost'', ''http'']))
   \<and> main (system 3 (0, 0) (0, False, False) (0, 0, 0)) [''tcping'', ''nowhere.invalid'', ''http'']
       = ([Gethostbyname ''nowhere.invalid'', Stderr (''error: Unknown host'' @ newline)],
          Exit (- 1))"
proof -
  have "snd (strtol ''http'') = 0"
    by code_simp
  moreover have "main (system 3 (0, 0) (0, False, False) (0, 0, 0))
                   [''tcping'', ''localhost'', ''http'']
       = (Gethostbyname ''localhost'' # usage ''tcping'', Exit (- 1))"
    by (simp add: run_defs)
  moreover have "main (system 3 (0, 0) (0, False, False) (0, 0, 0))
                   [''tcping'', ''nowhere.invalid'', ''http'']
       = ([Gethostbyname ''nowhere.invalid'', Stderr (''error: Unknown host'' @ newline)],
          Exit (- 1))"
    by (simp add: run_defs)
  ultimately show ?thesis
    by simp
qed

subsection \<open>The socket on the error paths\<close>

text \<open>
  The socket is closed on the paths that end with an exit code other than -1 (open,
  closed, timeout) and on the path of the \<open>getsockopt\<close> error.
\<close>

lemma await_closes:
  assumes "snd (await w verbosity host port sockfd timeout_sec timeout_usec) \<noteq> Exit (- 1)
           \<or> Getsockopt sockfd
               \<in> set (fst (await w verbosity host port sockfd timeout_sec timeout_usec))"
  shows "Close sockfd \<in> set (fst (await w verbosity host port sockfd timeout_sec timeout_usec))"
  using assms
  by (cases "select_result w (select_timeout timeout_sec timeout_usec)";
      cases "getsockopt_result w")
     (auto simp add: await_def Let_def log_def prefixed_def established_def split: if_splits)

lemma probe_closes:
  assumes "snd (probe w verbosity host port addr timeout_sec timeout_usec) \<noteq> Exit (- 1)
           \<or> Getsockopt (socket_result w)
               \<in> set (fst (probe w verbosity host port addr timeout_sec timeout_usec))"
  shows "Close (socket_result w)
           \<in> set (fst (probe w verbosity host port addr timeout_sec timeout_usec))"
proof (cases "sys_connect w (socket_result w) addr")
  case (Pair ret errno)
  show ?thesis
  proof (cases "ret \<noteq> 0 \<and> errno = EINPROGRESS")
    case True
    with Pair have p: "sys_connect w (socket_result w) addr = (ret, EINPROGRESS)" "ret \<noteq> 0"
      by simp_all
    from assms show ?thesis
      using await_closes [of w verbosity host port "socket_result w" timeout_sec timeout_usec]
      by (simp add: probe_pending [OF p] prefixed_def)
  next
    case False
    with Pair assms show ?thesis
      by (auto simp add: probe_def Let_def log_def prefixed_def established_def
               split: if_splits)
  qed
qed

text \<open>
  Claim C1 does not hold of the code: \<open>close\<close> is called on neither of the two other
  paths. The run of \<open>tcping localhost 80\<close> on a system whose \<open>connect\<close> fails with
  \<open>ENETUNREACH\<close> (101) ends without a \<open>close\<close> of the descriptor 3, and so does the run
  on a system whose \<open>select\<close> returns 1 with the socket in neither set.
\<close>

theorem socket_left_open_on_error_paths:
  "main (system 3 (- 1, 101) (0, False, False) (0, 0, 0)) [''tcping'', ''localhost'', ''80'']
     = ([Gethostbyname ''localhost'', Socket 3, Fcntl 3,
         Connect 3 \<lparr>sin_family = 2, sin_port = 80, sin_addr = [127, 0, 0, 1]\<rparr>,
         Stderr (''error: localhost port 80: Network is unreachable'' @ newline)],
        Exit (- 1))
   \<and> Close 3 \<notin> set (fst (main (system 3 (- 1, 101) (0, False, False) (0, 0, 0))
                             [''tcping'', ''localhost'', ''80'']))
   \<and> main (system 3 (- 1, 115) (1, False, False) (0, 0, 0)) [''tcping'', ''localhost'', ''80'']
       = ([Gethostbyname ''localhost'', Socket 3, Fcntl 3,
           Connect 3 \<lparr>sin_family = 2, sin_port = 80, sin_addr = [127, 0, 0, 1]\<rparr>,
           Select 4 None, Stderr (''error: select: sockfd not set'' @ newline)],
          Exit (- 1))
   \<and> Close 3 \<notin> set (fst (main (system 3 (- 1, 115) (1, False, False) (0, 0, 0))
                             [''tcping'', ''localhost'', ''80'']))"
proof -
  have unreachable:
    "main (system 3 (- 1, 101) (0, False, False) (0, 0, 0)) [''tcping'', ''localhost'', ''80'']
       = ([Gethostbyname ''localhost'', Socket 3, Fcntl 3,
           Connect 3 \<lparr>sin_family = 2, sin_port = 80, sin_addr = [127, 0, 0, 1]\<rparr>,
           Stderr (''error: localhost port 80: Network is unreachable'' @ newline)],
          Exit (- 1))"
    by (simp add: run_defs)
  have not_set:
    "main (system 3 (- 1, 115) (1, False, False) (0, 0, 0)) [''tcping'', ''localhost'', ''80'']
       = ([Gethostbyname ''localhost'', Socket 3, Fcntl 3,
           Connect 3 \<lparr>sin_family = 2, sin_port = 80, sin_addr = [127, 0, 0, 1]\<rparr>,
           Select 4 None, Stderr (''error: select: sockfd not set'' @ newline)],
          Exit (- 1))"
    by (simp add: run_defs)
  show ?thesis
    unfolding unreachable not_set by simp
qed

end
